theory Spec2Isabelle
  imports Main "HOL-Library.Log_Nat" "HOL-Library.Sublist"
begin

section \<open>Python floats\<close>

text \<open>
  The three fields of a \<^verbatim>\<open>ThermodynamicSystem\<close> are Python floats, that is IEEE 754
  binary64 numbers. A finite float is kept as a pair of integers: \<open>Fin m e\<close> stands
  for the number \<open>m * 2 ^ e\<close>. The sign of a zero is not recorded (Python's \<^verbatim>\<open>==\<close>
  does not see it, and nothing in \<^verbatim>\<open>core.py\<close> divides).
\<close>

datatype pyfloat = Fin int int | PosInf | NegInf | NaN

text \<open>
  \<open>rne_shift m k\<close> divides \<open>m\<close> by \<open>2 ^ k\<close> and rounds the quotient to the nearest
  integer, a tie going to the even neighbour (the rounding mode of binary64).
\<close>

definition rne_shift :: "int \<Rightarrow> nat \<Rightarrow> int" where
  "rne_shift m k =
     (let a = \<bar>m\<bar>; q = a div 2 ^ k; r = a mod 2 ^ k
      in sgn m * (if 2 ^ k < 2 * r \<or> (2 * r = 2 ^ k \<and> odd q) then q + 1 else q))"

text \<open>
  \<open>round_to_double m e\<close> is the binary64 number nearest to \<open>m * 2 ^ e\<close>: at most 53
  significant bits, no bit below \<open>2 ^ - 1074\<close>, and an infinity once the rounded
  magnitude reaches \<open>2 ^ 1024\<close>.
\<close>

definition round_to_double :: "int \<Rightarrow> int \<Rightarrow> pyfloat" where
  "round_to_double m e =
     (if m = 0 then Fin 0 0
      else let te = max (- 1074) (e + bitlen \<bar>m\<bar> - 53);
               m' = (if te \<le> e then m else rne_shift m (nat (te - e)));
               e' = (if te \<le> e then e else te)
           in if 1024 < bitlen \<bar>m'\<bar> + e'
              then (if m < 0 then NegInf else PosInf)
              else Fin m' e')"

fun fneg :: "pyfloat \<Rightarrow> pyfloat" where
  "fneg (Fin m e) = Fin (- m) e"
| "fneg PosInf = NegInf"
| "fneg NegInf = PosInf"
| "fneg NaN = NaN"

text \<open>Float addition: the exact sum of the two operands, rounded once.\<close>

fun fadd :: "pyfloat \<Rightarrow> pyfloat \<Rightarrow> pyfloat" where
  "fadd (Fin m1 e1) (Fin m2 e2) =
     (let e = min e1 e2
      in round_to_double (m1 * 2 ^ nat (e1 - e) + m2 * 2 ^ nat (e2 - e)) e)"
| "fadd NaN _ = NaN"
| "fadd _ NaN = NaN"
| "fadd PosInf NegInf = NaN"
| "fadd NegInf PosInf = NaN"
| "fadd PosInf _ = PosInf"
| "fadd NegInf _ = NegInf"
| "fadd _ PosInf = PosInf"
| "fadd _ NegInf = NegInf"

definition fsub :: "pyfloat \<Rightarrow> pyfloat \<Rightarrow> pyfloat" where
  "fsub a b = fadd a (fneg b)"

text \<open>Python's \<^verbatim>\<open>==\<close> on floats: equality of the numbers; a NaN equals nothing.\<close>

fun float_eq :: "pyfloat \<Rightarrow> pyfloat \<Rightarrow> bool" where
  "float_eq (Fin m1 e1) (Fin m2 e2) =
     (m1 * 2 ^ nat (e1 - min e1 e2) = m2 * 2 ^ nat (e2 - min e1 e2))"
| "float_eq PosInf PosInf = True"
| "float_eq NegInf NegInf = True"
| "float_eq _ _ = False"




section \<open>Python values and exceptions\<close>

datatype pyval =
    PNone
  | PBool bool
  | PInt int
  | PFloat pyfloat
  | PStr string
  | PList "pyval list"
  | PDict "(string \<times> pyval) list"
  | PSystem system
and system =
    ThermodynamicSystem (internal_energy: pyval) (heat_added: pyval) (work_done: pyval)

text \<open>
  The exceptions that \<^verbatim>\<open>core.py\<close> raises or lets through, each with its message.
  \<open>JSONDecodeError\<close> carries \<^verbatim>\<open>msg\<close>, \<^verbatim>\<open>doc\<close> and \<^verbatim>\<open>pos\<close>. In Python
  \<^verbatim>\<open>JSONDecodeError\<close>, \<^verbatim>\<open>UnicodeDecodeError\<close> and \<^verbatim>\<open>UnicodeEncodeError\<close> are
  subclasses of \<^verbatim>\<open>ValueError\<close>, and
  \<^verbatim>\<open>FileNotFoundError\<close> is a subclass of \<^verbatim>\<open>OSError\<close> (of which \<^verbatim>\<open>IOError\<close> is another
  name); the order of the \<^verbatim>\<open>except\<close> clauses accounts for it.
\<close>

datatype error =
    TypeError string
  | ValueError string
  | KeyError string
  | OverflowError string
  | FileNotFoundError string
  | JSONDecodeError string string nat
  | UnicodeDecodeError string
  | UnicodeEncodeError string
  | RecursionError string
  | OSError string

text \<open>The single quote, as a string.\<close>

abbreviation sq :: string where
  "sq \<equiv> [CHR 0x27]"

definition and_then :: "error + 'a \<Rightarrow> ('a \<Rightarrow> error + 'b) \<Rightarrow> error + 'b" where
  "and_then r f = (case r of Inl e \<Rightarrow> Inl e | Inr x \<Rightarrow> f x)"

text \<open>\<^verbatim>\<open>type(value).__name__\<close>\<close>

fun type_name :: "pyval \<Rightarrow> string" where
  "type_name PNone = ''NoneType''"
| "type_name (PBool _) = ''bool''"
| "type_name (PInt _) = ''int''"
| "type_name (PFloat _) = ''float''"
| "type_name (PStr _) = ''str''"
| "type_name (PList _) = ''list''"
| "type_name (PDict _) = ''dict''"
| "type_name (PSystem _) = ''ThermodynamicSystem''"

text \<open>The three messages of \<^verbatim>\<open>core.py\<close> that are built from a name and a value.\<close>

definition not_a_number_message :: "string \<Rightarrow> pyval \<Rightarrow> string" where
  "not_a_number_message name v =
     name @ '' must be a float or an integer, but got '' @ type_name v @ ''.''"

definition missing_key_message :: "string \<Rightarrow> string" where
  "missing_key_message key =
     ''Missing key '' @ sq @ key @ sq @ '' in system data for deserialization.''"

definition bad_value_message :: "string \<Rightarrow> pyval \<Rightarrow> string" where
  "bad_value_message key v =
     ''Value for '' @ sq @ key @ sq @ '' must be a float, but got '' @ type_name v @ ''.''"

text \<open>
  \<^verbatim>\<open>isinstance(value, (int, float))\<close>. \<^verbatim>\<open>bool\<close> is a subclass of \<^verbatim>\<open>int\<close>, so a
  boolean is an instance of \<^verbatim>\<open>int\<close>.
\<close>

fun isinstance_int_float :: "pyval \<Rightarrow> bool" where
  "isinstance_int_float (PBool _) = True"
| "isinstance_int_float (PInt _) = True"
| "isinstance_int_float (PFloat _) = True"
| "isinstance_int_float _ = False"

text \<open>
  \<^verbatim>\<open>float(n)\<close> for an integer \<open>n\<close>: the nearest float, or \<^verbatim>\<open>OverflowError\<close> when
  that is not finite.
\<close>

definition float_of_int :: "int \<Rightarrow> error + pyfloat" where
  "float_of_int n =
     (case round_to_double n 0 of
        Fin m e \<Rightarrow> Inr (Fin m e)
      | _ \<Rightarrow> Inl (OverflowError ''int too large to convert to float''))"

text \<open>
  \<^verbatim>\<open>float(value)\<close>, on the values that pass the \<^verbatim>\<open>isinstance\<close> check (the only ones
  \<^verbatim>\<open>core.py\<close> converts); on the others the result is \<open>None\<close>.
\<close>

fun py_float :: "pyval \<Rightarrow> (error + pyfloat) option" where
  "py_float (PFloat f) = Some (Inr f)"
| "py_float (PInt n) = Some (float_of_int n)"
| "py_float (PBool b) = Some (Inr (Fin (if b then 1 else 0) 0))"
| "py_float _ = None"

text \<open>
  The two arithmetic operators the calculator uses. An operand that reaches them has
  passed \<^verbatim>\<open>_validate_calculation_inputs\<close>, so it is a number or \<^verbatim>\<open>None\<close>; with a
  \<^verbatim>\<open>None\<close> operand Python raises the \<^verbatim>\<open>TypeError\<close> of the last equation.
\<close>

fun int_operand :: "pyval \<Rightarrow> int option" where
  "int_operand (PInt n) = Some n"
| "int_operand (PBool b) = Some (if b then 1 else 0)"
| "int_operand _ = None"

definition py_arith ::
  "string \<Rightarrow> (int \<Rightarrow> int \<Rightarrow> int) \<Rightarrow> (pyfloat \<Rightarrow> pyfloat \<Rightarrow> pyfloat) \<Rightarrow> pyval \<Rightarrow> pyval \<Rightarrow> error + pyval"
where
  "py_arith opname iop fop a b =
     (case (int_operand a, int_operand b) of
        (Some x, Some y) \<Rightarrow> Inr (PInt (iop x y))
      | _ \<Rightarrow>
        (case (py_float a, py_float b) of
           (Some ra, Some rb) \<Rightarrow>
             and_then ra (\<lambda>x. and_then rb (\<lambda>y. Inr (PFloat (fop x y))))
         | _ \<Rightarrow>
             Inl (TypeError (''unsupported operand type(s) for '' @ opname @ '': '' @ sq @ type_name a
                    @ sq @ '' and '' @ sq @ type_name b @ sq))))"

definition py_add :: "pyval \<Rightarrow> pyval \<Rightarrow> error + pyval" where
  "py_add = py_arith ''+'' (+) fadd"

definition py_sub :: "pyval \<Rightarrow> pyval \<Rightarrow> error + pyval" where
  "py_sub = py_arith ''-'' (-) fsub"

text \<open>
  Python's \<^verbatim>\<open>==\<close> between two values. Numbers are compared by value (an integer with a
  float exactly); the other values, which no field of an entity ever holds, structurally.
\<close>

definition py_eq :: "pyval \<Rightarrow> pyval \<Rightarrow> bool" where
  "py_eq a b =
     (case (int_operand a, int_operand b) of
        (Some x, Some y) \<Rightarrow> x = y
      | (Some x, None) \<Rightarrow> (case b of PFloat g \<Rightarrow> float_eq (Fin x 0) g | _ \<Rightarrow> False)
      | (None, Some y) \<Rightarrow> (case a of PFloat f \<Rightarrow> float_eq f (Fin y 0) | _ \<Rightarrow> False)
      | (None, None) \<Rightarrow>
          (case (a, b) of (PFloat f, PFloat g) \<Rightarrow> float_eq f g | _ \<Rightarrow> a = b))"

section \<open>ThermodynamicSystem\<close>

text \<open>\<^verbatim>\<open>ThermodynamicSystem._validate_float\<close>\<close>

definition validate_float :: "string \<Rightarrow> pyval \<Rightarrow> error + pyval" where
  "validate_float name v =
     (if \<not> isinstance_int_float v
      then Inl (TypeError (not_a_number_message name v))
      else case py_float v of
             Some r \<Rightarrow> and_then r (\<lambda>f. Inr (PFloat f))
           | None \<Rightarrow> Inl (TypeError (not_a_number_message name v)))"

text \<open>\<^verbatim>\<open>ThermodynamicSystem.__init__\<close>; the defaults are \<^verbatim>\<open>0.0\<close>.\<close>

definition init :: "pyval \<Rightarrow> pyval \<Rightarrow> pyval \<Rightarrow> error + system" where
  "init ie q w =
     and_then (validate_float ''internal_energy'' ie) (\<lambda>a.
     and_then (validate_float ''heat_added'' q) (\<lambda>b.
     and_then (validate_float ''work_done'' w) (\<lambda>c.
       Inr (ThermodynamicSystem a b c))))"

definition default_arg :: pyval where
  "default_arg = PFloat (Fin 0 0)"

text \<open>
  The three property setters. The right-hand side of the assignment is evaluated first:
  when it raises, the object is as it was. A setter returns the exception, if any, and
  the object after the call.
\<close>

definition set_internal_energy :: "system \<Rightarrow> pyval \<Rightarrow> error option \<times> system" where
  "set_internal_energy s v =
     (case validate_float ''internal_energy'' v of
        Inl e \<Rightarrow> (Some e, s)
      | Inr f \<Rightarrow> (None, ThermodynamicSystem f (heat_added s) (work_done s)))"

definition set_heat_added :: "system \<Rightarrow> pyval \<Rightarrow> error option \<times> system" where
  "set_heat_added s v =
     (case validate_float ''heat_added'' v of
        Inl e \<Rightarrow> (Some e, s)
      | Inr f \<Rightarrow> (None, ThermodynamicSystem (internal_energy s) f (work_done s)))"

definition set_work_done :: "system \<Rightarrow> pyval \<Rightarrow> error option \<times> system" where
  "set_work_done s v =
     (case validate_float ''work_done'' v of
        Inl e \<Rightarrow> (Some e, s)
      | Inr f \<Rightarrow> (None, ThermodynamicSystem (internal_energy s) (heat_added s) f))"

text \<open>\<^verbatim>\<open>ThermodynamicSystem.to_dict\<close>\<close>

definition to_dict :: "system \<Rightarrow> pyval" where
  "to_dict s =
     PDict [(''internal_energy'', internal_energy s),
            (''heat_added'', heat_added s),
            (''work_done'', work_done s)]"

text \<open>
  \<^verbatim>\<open>key in data\<close> and \<^verbatim>\<open>data[key]\<close> for a string key. \<^verbatim>\<open>from_dict\<close> is meant for a
  dictionary, but \<^verbatim>\<open>load_system_from_json\<close> hands it whatever the file holds, so the
  other kinds of value are covered too (with CPython's messages).
\<close>

fun py_contains :: "string \<Rightarrow> pyval \<Rightarrow> error + bool" where
  "py_contains key (PDict kvs) = Inr (map_of kvs key \<noteq> None)"
| "py_contains key (PList xs) = Inr (PStr key \<in> set xs)"
| "py_contains key (PStr s) = Inr (sublist key s)"
| "py_contains key v = Inl (TypeError (''argument of type '' @ sq @ type_name v @ sq @ '' is not iterable''))"

fun py_getitem :: "pyval \<Rightarrow> string \<Rightarrow> error + pyval" where
  "py_getitem (PDict kvs) key =
     (case map_of kvs key of Some v \<Rightarrow> Inr v | None \<Rightarrow> Inl (KeyError (sq @ key @ sq)))"
| "py_getitem (PList xs) key = Inl (TypeError ''list indices must be integers or slices, not str'')"
| "py_getitem (PStr s) key = Inl (TypeError (''string indices must be integers, not '' @ sq @ ''str'' @ sq))"
| "py_getitem v key = Inl (TypeError (sq @ type_name v @ sq @ '' object is not subscriptable''))"

text \<open>The validation loop of \<^verbatim>\<open>ThermodynamicSystem.from_dict\<close>, over the list of keys.\<close>

fun check_keys :: "pyval \<Rightarrow> string list \<Rightarrow> error option" where
  "check_keys data [] = None"
| "check_keys data (key # keys) =
     (case py_contains key data of
        Inl e \<Rightarrow> Some e
      | Inr present \<Rightarrow>
          if \<not> present
          then Some (ValueError (missing_key_message key))
          else (case py_getitem data key of
                  Inl e \<Rightarrow> Some e
                | Inr v \<Rightarrow>
                    if \<not> isinstance_int_float v
                    then Some (TypeError (bad_value_message key v))
                    else check_keys data keys))"

definition from_dict :: "pyval \<Rightarrow> error + system" where
  "from_dict data =
     (case check_keys data [''internal_energy'', ''heat_added'', ''work_done''] of
        Some e \<Rightarrow> Inl e
      | None \<Rightarrow>
          and_then (py_getitem data ''internal_energy'') (\<lambda>ie.
          and_then (py_getitem data ''heat_added'') (\<lambda>q.
          and_then (py_getitem data ''work_done'') (\<lambda>w. init ie q w))))"

text \<open>\<^verbatim>\<open>ThermodynamicSystem.__eq__\<close>\<close>

fun system_eq :: "system \<Rightarrow> pyval \<Rightarrow> bool" where
  "system_eq s (PSystem t) =
     (py_eq (internal_energy s) (internal_energy t)
      \<and> py_eq (heat_added s) (heat_added t)
      \<and> py_eq (work_done s) (work_done t))"
| "system_eq s _ = False"

section \<open>FirstLawCalculator\<close>

text \<open>
  \<^verbatim>\<open>_validate_calculation_inputs\<close>: a parameter left out is \<^verbatim>\<open>None\<close>, and the loop
  skips a \<^verbatim>\<open>None\<close>.
\<close>

fun validate_loop :: "(string \<times> pyval) list \<Rightarrow> error option" where
  "validate_loop [] = None"
| "validate_loop ((name, v) # rest) =
     (if v \<noteq> PNone \<and> \<not> isinstance_int_float v
      then Some (TypeError (not_a_number_message name v))
      else validate_loop rest)"

definition validate_calculation_inputs :: "pyval \<Rightarrow> pyval \<Rightarrow> pyval \<Rightarrow> error option" where
  "validate_calculation_inputs delta_u q w =
     validate_loop [(''delta_u'', delta_u), (''heat_added'', q), (''work_done'', w)]"

definition calculate_delta_u :: "pyval \<Rightarrow> error + pyval" where
  "calculate_delta_u sys =
     (case sys of
        PSystem s \<Rightarrow>
          (case validate_calculation_inputs PNone (heat_added s) (work_done s) of
             Some e \<Rightarrow> Inl e
           | None \<Rightarrow> py_sub (heat_added s) (work_done s))
      | _ \<Rightarrow> Inl (TypeError ''Input must be an instance of ThermodynamicSystem.''))"

definition calculate_heat_added :: "pyval \<Rightarrow> pyval \<Rightarrow> error + pyval" where
  "calculate_heat_added delta_u w =
     (case validate_calculation_inputs delta_u PNone w of
        Some e \<Rightarrow> Inl e
      | None \<Rightarrow> py_add delta_u w)"

definition calculate_work_done :: "pyval \<Rightarrow> pyval \<Rightarrow> error + pyval" where
  "calculate_work_done delta_u q =
     (case validate_calculation_inputs delta_u q PNone of
        Some e \<Rightarrow> Inl e
      | None \<Rightarrow> py_sub q delta_u)"

section \<open>Persistence\<close>

text \<open>
  What a file holds is kept as the result \<^verbatim>\<open>json.load\<close> has on it:
  \<^item> \<open>JsonText v\<close>: a text that denotes the value \<open>v\<close>;
  \<^item> \<open>BadText msg doc pos\<close>: a text \<open>doc\<close> that the decoder rejects, with the decoder's
    message and the position of the fault (an index into \<open>doc\<close>, counted in characters);
  \<^item> \<open>HugeNumber msg\<close>: a JSON text with an integer literal longer than the limit on
    integer digits, for which \<^verbatim>\<open>json.load\<close> raises a plain \<^verbatim>\<open>ValueError\<close>;
  \<^item> \<open>TooDeep msg\<close>: a JSON text nested beyond the recursion limit (\<^verbatim>\<open>RecursionError\<close>);
  \<^item> \<open>NotText msg\<close>: bytes that are not UTF-8, which reading the file rejects with a
    \<^verbatim>\<open>UnicodeDecodeError\<close>.
  \<^verbatim>\<open>json.dump\<close> writes a text that denotes the value it was given (Python prints a float
  with the shortest digits that read back as the same float, and writes \<^verbatim>\<open>NaN\<close> and
  \<^verbatim>\<open>Infinity\<close> for the others); that property of the standard library is part of this
  model, not proved in it.
\<close>

datatype document =
    JsonText pyval
  | BadText string string nat
  | HugeNumber string
  | TooDeep string
  | NotText string

text \<open>
  A file system: the files by path; the paths that cannot be encoded for the operating
  system (one with a lone surrogate, say), with the codec's message; the paths that the
  operating system refuses to open or read, and to open or write (for another reason
  than absence), with its message; and the paths that can be written but keep nothing
  of it (a device such as \<^verbatim>\<open>/dev/null\<close>).
\<close>

record filesystem =
  files :: "string \<rightharpoonup> document"
  encode_fault :: "string \<rightharpoonup> string"
  read_fault :: "string \<rightharpoonup> string"
  write_fault :: "string \<rightharpoonup> string"
  sinks :: "string set"

text \<open>\<^verbatim>\<open>open\<close>, in either mode, encodes the path first, which fails with a
  \<^verbatim>\<open>UnicodeEncodeError\<close>, and then refuses a path that holds a NUL character with a
  \<^verbatim>\<open>ValueError\<close>.\<close>

definition has_nul :: "string \<Rightarrow> bool" where
  "has_nul p = (CHR 0x00 \<in> set p)"

text \<open>Of the values here, only an object of a user class has no JSON form.\<close>

fun json_serializable :: "pyval \<Rightarrow> bool" where
  "json_serializable (PSystem _) = False"
| "json_serializable (PList xs) = list_all json_serializable xs"
| "json_serializable (PDict kvs) = list_all json_serializable (map snd kvs)"
| "json_serializable _ = True"

definition json_dump :: "pyval \<Rightarrow> error + document" where
  "json_dump v =
     (if json_serializable v then Inr (JsonText v)
      else Inl (TypeError ''Object of type ThermodynamicSystem is not JSON serializable''))"

text \<open>\<^verbatim>\<open>json.load(f)\<close>, reading the file included.\<close>

definition json_load :: "document \<Rightarrow> error + pyval" where
  "json_load d =
     (case d of
        JsonText v \<Rightarrow> Inr v
      | BadText msg doc pos \<Rightarrow> Inl (JSONDecodeError msg doc pos)
      | HugeNumber msg \<Rightarrow> Inl (ValueError msg)
      | TooDeep msg \<Rightarrow> Inl (RecursionError msg)
      | NotText msg \<Rightarrow> Inl (UnicodeDecodeError msg))"

text \<open>\<^verbatim>\<open>open(filename, 'r')\<close>\<close>

definition open_read :: "filesystem \<Rightarrow> string \<Rightarrow> error + document" where
  "open_read fs p =
     (case encode_fault fs p of
        Some m \<Rightarrow> Inl (UnicodeEncodeError m)
      | None \<Rightarrow>
          if has_nul p then Inl (ValueError ''embedded null byte'')
          else case read_fault fs p of
            Some m \<Rightarrow> Inl (OSError m)
          | None \<Rightarrow>
              (case files fs p of
                 None \<Rightarrow> Inl (FileNotFoundError (''[Errno 2] No such file or directory: '' @ sq @ p @ sq))
               | Some d \<Rightarrow> Inr d))"

text \<open>
  \<^verbatim>\<open>save_system_to_json\<close>. Only an \<^verbatim>\<open>IOError\<close> is caught and wrapped: the
  \<^verbatim>\<open>UnicodeEncodeError\<close> and the \<^verbatim>\<open>ValueError\<close> of \<^verbatim>\<open>open\<close> and the \<^verbatim>\<open>TypeError\<close> of
  \<^verbatim>\<open>json.dump\<close> come out as they are. A path that opens keeps what is written unless
  it is a sink.
\<close>

definition save_system_to_json :: "filesystem \<Rightarrow> pyval \<Rightarrow> pyval \<Rightarrow> error + filesystem" where
  "save_system_to_json fs sys filename =
     (case sys of
        PSystem s \<Rightarrow>
          (case filename of
             PStr p \<Rightarrow>
               (case encode_fault fs p of
                  Some m \<Rightarrow> Inl (UnicodeEncodeError m)
                | None \<Rightarrow>
                    if has_nul p then Inl (ValueError ''embedded null byte'')
                    else case write_fault fs p of
                      Some m \<Rightarrow> Inl (OSError (''Failed to save system to '' @ p @ '': '' @ m))
                    | None \<Rightarrow>
                        and_then (json_dump (to_dict s))
                          (\<lambda>d. Inr (if p \<in> sinks fs then fs
                                    else fs\<lparr>files := (files fs)(p \<mapsto> d)\<rparr>)))
           | _ \<Rightarrow> Inl (TypeError ''Input 'filename' must be a string.''))
      | _ \<Rightarrow> Inl (TypeError ''Input 'system' must be an instance of ThermodynamicSystem.''))"

text \<open>
  The \<^verbatim>\<open>except\<close> clauses of \<^verbatim>\<open>load_system_from_json\<close>, in their order:
  \<^verbatim>\<open>FileNotFoundError\<close>, \<^verbatim>\<open>JSONDecodeError\<close>, then \<^verbatim>\<open>(ValueError, TypeError, KeyError)\<close>
  re-raised as \<^verbatim>\<open>type(e)(message)\<close>, then \<^verbatim>\<open>IOError\<close>. An \<^verbatim>\<open>OverflowError\<close> or a
  \<^verbatim>\<open>RecursionError\<close> is not caught. \<open>KeyError\<close> holds the key, and \<^verbatim>\<open>str\<close> of it is
  the key in quotes. A \<^verbatim>\<open>UnicodeDecodeError\<close> or \<^verbatim>\<open>UnicodeEncodeError\<close> is caught by
  the third clause, where \<^verbatim>\<open>type(e)(message)\<close> itself fails: the constructor of either
  wants five arguments, and the \<^verbatim>\<open>TypeError\<close> saying so is what the caller gets.
\<close>

fun load_handler :: "string \<Rightarrow> error \<Rightarrow> error" where
  "load_handler p (FileNotFoundError m) = FileNotFoundError (''File not found: '' @ p)"
| "load_handler p (JSONDecodeError msg doc pos) =
     JSONDecodeError (''Invalid JSON format in '' @ p @ '': '' @ msg) doc pos"
| "load_handler p (ValueError m) = ValueError (''Error parsing system data from '' @ p @ '': '' @ m)"
| "load_handler p (TypeError m) = TypeError (''Error parsing system data from '' @ p @ '': '' @ m)"
| "load_handler p (KeyError k) =
     KeyError (''Error parsing system data from '' @ p @ '': '' @ sq @ k @ sq)"
| "load_handler p (OSError m) = OSError (''Failed to load system from '' @ p @ '': '' @ m)"
| "load_handler p (UnicodeDecodeError m) =
     TypeError ''function takes exactly 5 arguments (1 given)''"
| "load_handler p (UnicodeEncodeError m) =
     TypeError ''function takes exactly 5 arguments (1 given)''"
| "load_handler p (OverflowError m) = OverflowError m"
| "load_handler p (RecursionError m) = RecursionError m"

definition load_system_from_json :: "filesystem \<Rightarrow> pyval \<Rightarrow> error + system" where
  "load_system_from_json fs filename =
     (case filename of
        PStr p \<Rightarrow>
          (case and_then (open_read fs p) (\<lambda>d. and_then (json_load d) from_dict) of
             Inl e \<Rightarrow> Inl (load_handler p e)
           | Inr s \<Rightarrow> Inr s)
      | _ \<Rightarrow> Inl (TypeError ''Input 'filename' must be a string.''))"

section \<open>Sequences of setter calls\<close>

datatype setter_call = SetInternalEnergy pyval | SetHeatAdded pyval | SetWorkDone pyval

fun apply_call :: "system \<Rightarrow> setter_call \<Rightarrow> error option \<times> system" where
  "apply_call s (SetInternalEnergy v) = set_internal_energy s v"
| "apply_call s (SetHeatAdded v) = set_heat_added s v"
| "apply_call s (SetWorkDone v) = set_work_done s v"

text \<open>
  The object after a sequence of calls, each of which succeeds or raises (the caller
  going on after an exception).
\<close>

fun run_calls :: "system \<Rightarrow> setter_call list \<Rightarrow> system" where
  "run_calls s [] = s"
| "run_calls s (c # cs) = run_calls (snd (apply_call s c)) cs"

fun is_float :: "pyval \<Rightarrow> bool" where
  "is_float (PFloat _) = True"
| "is_float _ = False"

definition fields_are_floats :: "system \<Rightarrow> bool" where
  "fields_are_floats s =
     (is_float (internal_energy s) \<and> is_float (heat_added s) \<and> is_float (work_done s))"

section \<open>Notions used by the statements\<close>

text \<open>A message identifies a name and a value when it contains the name and the name of
  the value's type.\<close>

definition identifies :: "string \<Rightarrow> string \<Rightarrow> pyval \<Rightarrow> bool" where
  "identifies msg name v = (sublist name msg \<and> sublist (type_name v) msg)"

text \<open>A field holding a float that is a number: positive, negative, zero or fractional,
  an infinity included, a NaN excluded.\<close>

fun ordinary_float :: "pyval \<Rightarrow> bool" where
  "ordinary_float (PFloat NaN) = False"
| "ordinary_float (PFloat _) = True"
| "ordinary_float _ = False"

definition ordinary_fields :: "system \<Rightarrow> bool" where
  "ordinary_fields s =
     (ordinary_float (internal_energy s) \<and> ordinary_float (heat_added s)
      \<and> ordinary_float (work_done s))"

text \<open>A file system with no file and no fault.\<close>

definition empty_fs :: filesystem where
  "empty_fs =
     \<lparr>files = Map.empty, encode_fault = Map.empty, read_fault = Map.empty,
      write_fault = Map.empty, sinks = {}\<rparr>"

text \<open>A file system with the null device, which reads as an empty text.\<close>

definition null_device_fs :: filesystem where
  "null_device_fs =
     \<lparr>files = [''/dev/null'' \<mapsto> BadText ''Expecting value'' [] 0],
      encode_fault = Map.empty, read_fault = Map.empty, write_fault = Map.empty,
      sinks = {''/dev/null''}\<rparr>"

text \<open>A file system where the directory \<^verbatim>\<open>missing_dir\<close> does not exist.\<close>

definition missing_dir_fs :: filesystem where
  "missing_dir_fs =
     \<lparr>files = Map.empty, encode_fault = Map.empty, read_fault = Map.empty,
      write_fault = [''missing_dir/system.json'' \<mapsto>
        ''[Errno 2] No such file or directory: '' @ sq @ ''missing_dir/system.json'' @ sq],
      sinks = {}\<rparr>"


text \<open>A path with a NUL character in it.\<close>

definition nul_path :: string where
  "nul_path = [CHR ''a'', CHR 0x00, CHR ''b'']"

text \<open>A file system with one malformed file and three JSON files.\<close>

definition example_fs :: filesystem where
  "example_fs = \<lparr>files = [''bad.json'' \<mapsto> BadText ''Expecting property name enclosed in double quotes'' ''{'internal_energy': 100,}'' 1,
                   ''missing.json'' \<mapsto> JsonText (PDict [(''internal_energy'', PFloat (Fin 100 0)), (''work_done'', PFloat (Fin 20 0))]),
                   ''string.json'' \<mapsto> JsonText (PDict [(''internal_energy'', PStr ''100.0''), (''heat_added'', PFloat (Fin 50 0)), (''work_done'', PFloat (Fin 20 0))]),
                   ''good.json'' \<mapsto> JsonText (PDict [(''internal_energy'', PFloat (Fin 100 0)), (''heat_added'', PFloat (Fin 50 0)), (''work_done'', PFloat (Fin 20 0))])],
           encode_fault = Map.empty, read_fault = Map.empty,
      write_fault = Map.empty, sinks = {}\<rparr>"

section \<open>Validation\<close>

lemma validate_float_rejects:
  "\<not> isinstance_int_float v \<Longrightarrow>
   validate_float name v =
     Inl (TypeError (not_a_number_message name v))"
  by (simp add: validate_float_def)

lemma validate_float_is_float:
  "validate_float name v = Inr x \<Longrightarrow> is_float x"
  by (cases v) (auto simp: validate_float_def and_then_def split: if_splits sum.splits)

lemma validate_float_bool:
  "validate_float name (PBool b) = Inr (PFloat (Fin (if b then 1 else 0) 0))"
  by (simp add: validate_float_def and_then_def)

lemma validate_float_float:
  "validate_float name (PFloat f) = Inr (PFloat f)"
  by (simp add: validate_float_def and_then_def)

text \<open>
  C10. Booleans pass the numeric validation: constructing an entity with \<open>True\<close> or
  \<open>False\<close> in any field, or assigning one to any field, succeeds and stores \<open>1.0\<close> or
  \<open>0.0\<close>; the calculator's validation accepts a boolean as well.
\<close>

theorem bool_accepted_as_number:
  "isinstance_int_float (PBool b)
   \<and> init (PBool b) default_arg default_arg =
       Inr (ThermodynamicSystem (PFloat (Fin (if b then 1 else 0) 0)) default_arg default_arg)
   \<and> init default_arg (PBool b) default_arg =
       Inr (ThermodynamicSystem default_arg (PFloat (Fin (if b then 1 else 0) 0)) default_arg)
   \<and> init default_arg default_arg (PBool b) =
       Inr (ThermodynamicSystem default_arg default_arg (PFloat (Fin (if b then 1 else 0) 0)))
   \<and> set_internal_energy s (PBool b) =
       (None, ThermodynamicSystem (PFloat (Fin (if b then 1 else 0) 0)) (heat_added s) (work_done s))
   \<and> set_heat_added s (PBool b) =
       (None, ThermodynamicSystem (internal_energy s) (PFloat (Fin (if b then 1 else 0) 0)) (work_done s))
   \<and> set_work_done s (PBool b) =
       (None, ThermodynamicSystem (internal_energy s) (heat_added s) (PFloat (Fin (if b then 1 else 0) 0)))
   \<and> validate_calculation_inputs (PBool b) (PBool b) (PBool b) = None"
  by (simp add: init_def default_arg_def validate_float_bool validate_float_float and_then_def
        set_internal_energy_def set_heat_added_def set_work_done_def
        validate_calculation_inputs_def)

theorem bool_accepted_as_number_witness:
  "init (PBool True) default_arg default_arg =
     Inr (ThermodynamicSystem (PFloat (Fin 1 0)) default_arg default_arg)
   \<and> set_work_done (ThermodynamicSystem default_arg default_arg default_arg) (PBool False) =
       (None, ThermodynamicSystem default_arg default_arg (PFloat (Fin 0 0)))"
  using bool_accepted_as_number [of True "ThermodynamicSystem default_arg default_arg default_arg"]
    bool_accepted_as_number [of False "ThermodynamicSystem default_arg default_arg default_arg"]
  by simp

text \<open>
  C7. Atomicity of mutation: assigning a value that is not a number to any of the three
  fields raises a \<open>TypeError\<close> that names the field, and leaves the object as it was.
\<close>

theorem failed_assignment_changes_nothing:
  assumes "\<not> isinstance_int_float v"
  shows "set_internal_energy s v =
           (Some (TypeError (''internal_energy must be a float or an integer, but got ''
                    @ type_name v @ ''.'')), s)
         \<and> set_heat_added s v =
           (Some (TypeError (''heat_added must be a float or an integer, but got ''
                    @ type_name v @ ''.'')), s)
         \<and> set_work_done s v =
           (Some (TypeError (''work_done must be a float or an integer, but got ''
                    @ type_name v @ ''.'')), s)"
  using assms
  by (simp add: set_internal_energy_def set_heat_added_def set_work_done_def
        validate_float_rejects not_a_number_message_def)

theorem failed_assignment_changes_nothing_witness:
  "\<not> isinstance_int_float PNone
   \<and> set_heat_added (ThermodynamicSystem default_arg default_arg default_arg) PNone =
       (Some (TypeError ''heat_added must be a float or an integer, but got NoneType.''),
        ThermodynamicSystem default_arg default_arg default_arg)"
  using failed_assignment_changes_nothing
          [of PNone "ThermodynamicSystem default_arg default_arg default_arg"]
  by simp

section \<open>The field invariant\<close>

lemma init_fields_are_floats:
  "init a b c = Inr s \<Longrightarrow> fields_are_floats s"
  by (auto simp: init_def and_then_def fields_are_floats_def
           split: sum.splits dest: validate_float_is_float)

lemma apply_call_fields_are_floats:
  "fields_are_floats s \<Longrightarrow> fields_are_floats (snd (apply_call s c))"
  by (cases c)
     (auto simp: set_internal_energy_def set_heat_added_def set_work_done_def
                 fields_are_floats_def
           split: sum.splits dest: validate_float_is_float)

lemma run_calls_fields_are_floats:
  "fields_are_floats s \<Longrightarrow> fields_are_floats (run_calls s cs)"
  by (induction cs arbitrary: s) (simp_all add: apply_call_fields_are_floats)

text \<open>
  C6. Field-type invariant: after a successful construction, and after any sequence of
  setter calls, successful or failed, each of the three fields holds a float. (A value
  that is stored has gone through \<^verbatim>\<open>float(value)\<close>, so an integer is stored as a float.)
\<close>

theorem fields_always_floats:
  assumes "init a b c = Inr s"
  shows "fields_are_floats (run_calls s cs)"
  using assms by (simp add: init_fields_are_floats run_calls_fields_are_floats)


theorem fields_always_floats_witness:
  "init (PInt 100) (PFloat (Fin 1 (- 1))) (PBool True)
     = Inr (ThermodynamicSystem (PFloat (Fin 100 0)) (PFloat (Fin 1 (- 1))) (PFloat (Fin 1 0)))
   \<and> fields_are_floats
       (run_calls (ThermodynamicSystem (PFloat (Fin 100 0)) (PFloat (Fin 1 (- 1))) (PFloat (Fin 1 0)))
          [SetHeatAdded (PStr ''wrong type''), SetWorkDone (PInt (- 15)), SetInternalEnergy PNone])"
proof -
  have h: "init (PInt 100) (PFloat (Fin 1 (- 1))) (PBool True)
     = Inr (ThermodynamicSystem (PFloat (Fin 100 0)) (PFloat (Fin 1 (- 1))) (PFloat (Fin 1 0)))"
    by code_simp
  show ?thesis by (intro conjI h fields_always_floats [OF h])
qed

section \<open>Equality\<close>

lemma float_of_int_finite:
  "float_of_int n = Inr f \<Longrightarrow> \<exists>m e. f = Fin m e"
  by (cases "round_to_double n 0") (auto simp: float_of_int_def)

lemma py_eq_floats [simp]:
  "py_eq (PFloat f) (PFloat g) = float_eq f g"
  by (simp add: py_eq_def)

lemma init_floats:
  "init (PFloat a) (PFloat b) (PFloat c) = Inr (ThermodynamicSystem (PFloat a) (PFloat b) (PFloat c))"
  by (simp add: init_def validate_float_float and_then_def)

lemma validate_float_int:
  "float_of_int n = Inr f \<Longrightarrow> validate_float name (PInt n) = Inr (PFloat f)"
  by (simp add: validate_float_def and_then_def)

lemma init_ints:
  "float_of_int i = Inr fi \<Longrightarrow> float_of_int j = Inr fj \<Longrightarrow> float_of_int k = Inr fk \<Longrightarrow>
   init (PInt i) (PInt j) (PInt k) = Inr (ThermodynamicSystem (PFloat fi) (PFloat fj) (PFloat fk))"
  by (simp add: init_def validate_float_int and_then_def)

text \<open>
  C9. Equality: an entity constructed from integers equals the entity constructed from the
  floats those integers convert to; comparing an entity with a value that is not an
  entity gives \<open>False\<close> (the comparison is a total function, it raises nothing); and
  two entities are equal exactly when the three pairs of fields are equal under \<^verbatim>\<open>==\<close>.
\<close>

theorem equality_semantics:
  "(float_of_int i = Inr fi \<and> float_of_int j = Inr fj \<and> float_of_int k = Inr fk \<longrightarrow>
      (\<exists>s t. init (PInt i) (PInt j) (PInt k) = Inr s
             \<and> init (PFloat fi) (PFloat fj) (PFloat fk) = Inr t
             \<and> system_eq s (PSystem t) \<and> system_eq t (PSystem s)))
   \<and> ((\<forall>t. v \<noteq> PSystem t) \<longrightarrow> \<not> system_eq a v)
   \<and> system_eq a (PSystem b) =
       (py_eq (internal_energy a) (internal_energy b)
        \<and> py_eq (heat_added a) (heat_added b)
        \<and> py_eq (work_done a) (work_done b))"
proof (intro conjI impI)
  assume h: "float_of_int i = Inr fi \<and> float_of_int j = Inr fj \<and> float_of_int k = Inr fk"
  then obtain m1 e1 m2 e2 m3 e3 where f: "fi = Fin m1 e1" "fj = Fin m2 e2" "fk = Fin m3 e3"
    by (meson float_of_int_finite)
  let ?s = "ThermodynamicSystem (PFloat fi) (PFloat fj) (PFloat fk)"
  have "init (PInt i) (PInt j) (PInt k) = Inr ?s" using h by (simp add: init_ints)
  moreover have "init (PFloat fi) (PFloat fj) (PFloat fk) = Inr ?s" by (rule init_floats)
  moreover have "system_eq ?s (PSystem ?s)" using f by simp
  ultimately show "\<exists>s t. init (PInt i) (PInt j) (PInt k) = Inr s
             \<and> init (PFloat fi) (PFloat fj) (PFloat fk) = Inr t
             \<and> system_eq s (PSystem t) \<and> system_eq t (PSystem s)" by blast
next
  assume "\<forall>t. v \<noteq> PSystem t"
  then show "\<not> system_eq a v" by (cases v) simp_all
next
  show "system_eq a (PSystem b) =
       (py_eq (internal_energy a) (internal_energy b)
        \<and> py_eq (heat_added a) (heat_added b)
        \<and> py_eq (work_done a) (work_done b))" by simp
qed

theorem equality_semantics_witness:
  "(\<exists>s t. init (PInt 100) (PInt 50) (PInt 20) = Inr s
         \<and> init (PFloat (Fin 100 0)) (PFloat (Fin 50 0)) (PFloat (Fin 20 0)) = Inr t
         \<and> system_eq s (PSystem t) \<and> system_eq t (PSystem s))
   \<and> \<not> system_eq (ThermodynamicSystem default_arg default_arg default_arg) (PStr ''not a system'')"
proof -
  have h: "float_of_int 100 = Inr (Fin 100 0) \<and> float_of_int 50 = Inr (Fin 50 0)
           \<and> float_of_int 20 = Inr (Fin 20 0)"
    by code_simp
  have n: "\<forall>t. PStr ''not a system'' \<noteq> PSystem t" by simp
  show ?thesis
    using equality_semantics [of 100 "Fin 100 0" 50 "Fin 50 0" 20 "Fin 20 0" "PStr ''not a system''"
            "ThermodynamicSystem default_arg default_arg default_arg"] h n
    by blast
qed


section \<open>Deserialisation\<close>

lemma from_dict_PDict:
  "from_dict (PDict d) =
     (case map_of d ''internal_energy'' of
        None \<Rightarrow> Inl (ValueError (missing_key_message ''internal_energy''))
      | Some ie \<Rightarrow>
          if \<not> isinstance_int_float ie
          then Inl (TypeError (bad_value_message ''internal_energy'' ie))
          else (case map_of d ''heat_added'' of
                  None \<Rightarrow> Inl (ValueError (missing_key_message ''heat_added''))
                | Some q \<Rightarrow>
                    if \<not> isinstance_int_float q
                    then Inl (TypeError (bad_value_message ''heat_added'' q))
                    else (case map_of d ''work_done'' of
                            None \<Rightarrow> Inl (ValueError (missing_key_message ''work_done''))
                          | Some w \<Rightarrow>
                              if \<not> isinstance_int_float w
                              then Inl (TypeError (bad_value_message ''work_done'' w))
                              else init ie q w)))"
  by (simp add: from_dict_def and_then_def split: option.splits)

text \<open>
  C4. \<^verbatim>\<open>from_dict\<close> on a mapping checks \<^verbatim>\<open>internal_energy\<close>, \<^verbatim>\<open>heat_added\<close>,
  \<^verbatim>\<open>work_done\<close> in that order: the first key that is absent gives the \<open>ValueError\<close>
  naming it, the first key that is present with a value that is not a number gives the
  \<open>TypeError\<close> naming it, and the entity is constructed only when all three have passed.
  The result depends on the mapping through these three keys only, so other keys are
  ignored.
\<close>

theorem from_dict_checks_keys_in_order:
  "from_dict (PDict d) =
     (case map_of d ''internal_energy'' of
        None \<Rightarrow> Inl (ValueError (missing_key_message ''internal_energy''))
      | Some ie \<Rightarrow>
          if \<not> isinstance_int_float ie
          then Inl (TypeError (bad_value_message ''internal_energy'' ie))
          else (case map_of d ''heat_added'' of
                  None \<Rightarrow> Inl (ValueError (missing_key_message ''heat_added''))
                | Some q \<Rightarrow>
                    if \<not> isinstance_int_float q
                    then Inl (TypeError (bad_value_message ''heat_added'' q))
                    else (case map_of d ''work_done'' of
                            None \<Rightarrow> Inl (ValueError (missing_key_message ''work_done''))
                          | Some w \<Rightarrow>
                              if \<not> isinstance_int_float w
                              then Inl (TypeError (bad_value_message ''work_done'' w))
                              else init ie q w)))
   \<and> (map_of d ''internal_energy'' = map_of d' ''internal_energy''
        \<and> map_of d ''heat_added'' = map_of d' ''heat_added''
        \<and> map_of d ''work_done'' = map_of d' ''work_done''
      \<longrightarrow> from_dict (PDict d) = from_dict (PDict d'))"
proof (intro conjI impI)
  assume "map_of d ''internal_energy'' = map_of d' ''internal_energy''
        \<and> map_of d ''heat_added'' = map_of d' ''heat_added''
        \<and> map_of d ''work_done'' = map_of d' ''work_done''"
  then show "from_dict (PDict d) = from_dict (PDict d')"
    by (simp add: from_dict_def and_then_def split: option.splits)
qed (rule from_dict_PDict)

theorem from_dict_checks_keys_in_order_witness:
  "from_dict (PDict [(''work_done'', PInt 20)]) =
     Inl (ValueError ''Missing key 'internal_energy' in system data for deserialization.'')
   \<and> from_dict (PDict [(''comment'', PStr ''extra''), (''internal_energy'', PFloat (Fin 100 0)),
                       (''heat_added'', PFloat (Fin 50 0)), (''work_done'', PFloat (Fin 20 0))])
     = from_dict (PDict [(''internal_energy'', PFloat (Fin 100 0)),
                       (''heat_added'', PFloat (Fin 50 0)), (''work_done'', PFloat (Fin 20 0))])"
proof (intro conjI)
  show "from_dict (PDict [(''work_done'', PInt 20)]) =
     Inl (ValueError ''Missing key 'internal_energy' in system data for deserialization.'')"
    using from_dict_checks_keys_in_order [of "[(''work_done'', PInt 20)]", THEN conjunct1]
    by (simp add: missing_key_message_def)
  show "from_dict (PDict [(''comment'', PStr ''extra''), (''internal_energy'', PFloat (Fin 100 0)),
                       (''heat_added'', PFloat (Fin 50 0)), (''work_done'', PFloat (Fin 20 0))])
     = from_dict (PDict [(''internal_energy'', PFloat (Fin 100 0)),
                       (''heat_added'', PFloat (Fin 50 0)), (''work_done'', PFloat (Fin 20 0))])"
    by (rule from_dict_checks_keys_in_order [THEN conjunct2, THEN mp]) simp
qed


section \<open>The calculator\<close>

lemma py_arith_floats:
  "py_arith opname iop fop (PFloat x) (PFloat y) = Inr (PFloat (fop x y))"
  by (simp add: py_arith_def and_then_def)

lemma py_arith_int_operands:
  "int_operand a = Some i \<Longrightarrow> int_operand b = Some j \<Longrightarrow>
   py_arith opname iop fop a b = Inr (PInt (iop i j))"
  by (simp add: py_arith_def)

lemma py_arith_float_operands:
  "py_float a = Some (Inr x) \<Longrightarrow> py_float b = Some (Inr y) \<Longrightarrow>
   int_operand a = None \<or> int_operand b = None \<Longrightarrow>
   py_arith opname iop fop a b = Inr (PFloat (fop x y))"
  by (auto simp: py_arith_def and_then_def split: option.splits)

lemma py_float_number: "py_float a = Some r \<Longrightarrow> isinstance_int_float a"
  by (cases a) simp_all

lemma int_operand_number: "int_operand a = Some i \<Longrightarrow> isinstance_int_float a"
  by (cases a) simp_all

lemma numbers_pass_validation:
  "isinstance_int_float a \<Longrightarrow> isinstance_int_float b \<Longrightarrow>
   validate_calculation_inputs a PNone b = None \<and> validate_calculation_inputs a b PNone = None
   \<and> validate_calculation_inputs PNone a b = None"
  by (simp add: validate_calculation_inputs_def)

text \<open>
  C1, amended. For an entity constructed with the floats \<open>q\<close> and \<open>w\<close>,
  \<^verbatim>\<open>calculate_delta_u\<close> returns the float difference \<open>q - w\<close>; for other numbers it
  returns the difference of the floats they were stored as. For two integers (or
  booleans) \<^verbatim>\<open>calculate_heat_added\<close> returns the integer sum and
  \<^verbatim>\<open>calculate_work_done\<close> the integer difference; when one argument at least is a float
  and both convert to float, they return the float sum and the float difference of the
  converted arguments.
\<close>

theorem calculators_compute_first_law:
  "(\<exists>s. init default_arg (PFloat q) (PFloat w) = Inr s
        \<and> heat_added s = PFloat q \<and> work_done s = PFloat w
        \<and> calculate_delta_u (PSystem s) = Inr (PFloat (fsub q w)))
   \<and> (init ie a b = Inr t \<longrightarrow>
        (\<exists>fa fb. py_float a = Some (Inr fa) \<and> py_float b = Some (Inr fb)
                 \<and> heat_added t = PFloat fa \<and> work_done t = PFloat fb
                 \<and> calculate_delta_u (PSystem t) = Inr (PFloat (fsub fa fb))))
   \<and> (int_operand du = Some i \<and> int_operand x = Some j \<longrightarrow>
        calculate_heat_added du x = Inr (PInt (i + j))
        \<and> calculate_work_done du x = Inr (PInt (j - i)))
   \<and> (py_float du = Some (Inr fd) \<and> py_float x = Some (Inr fx)
        \<and> (int_operand du = None \<or> int_operand x = None) \<longrightarrow>
        calculate_heat_added du x = Inr (PFloat (fadd fd fx))
        \<and> calculate_work_done du x = Inr (PFloat (fsub fx fd)))"
proof (intro conjI impI)
  show "\<exists>s. init default_arg (PFloat q) (PFloat w) = Inr s
        \<and> heat_added s = PFloat q \<and> work_done s = PFloat w
        \<and> calculate_delta_u (PSystem s) = Inr (PFloat (fsub q w))"
    by (simp add: default_arg_def init_floats calculate_delta_u_def
          validate_calculation_inputs_def py_sub_def py_arith_floats)
next
  assume h: "init ie a b = Inr t"
  then obtain x y z where
    v: "validate_float ''internal_energy'' ie = Inr x" "validate_float ''heat_added'' a = Inr y"
       "validate_float ''work_done'' b = Inr z" and t: "t = ThermodynamicSystem x y z"
    by (auto simp: init_def and_then_def split: sum.splits)
  from v(2) obtain fa where fa: "py_float a = Some (Inr fa)" "y = PFloat fa"
    by (auto simp: validate_float_def and_then_def split: if_splits option.splits sum.splits)
  from v(3) obtain fb where fb: "py_float b = Some (Inr fb)" "z = PFloat fb"
    by (auto simp: validate_float_def and_then_def split: if_splits option.splits sum.splits)
  have "calculate_delta_u (PSystem t) = Inr (PFloat (fsub fa fb))"
    by (simp add: t fa fb calculate_delta_u_def validate_calculation_inputs_def py_sub_def
          py_arith_floats)
  with fa fb t show "\<exists>fa fb. py_float a = Some (Inr fa) \<and> py_float b = Some (Inr fb)
                 \<and> heat_added t = PFloat fa \<and> work_done t = PFloat fb
                 \<and> calculate_delta_u (PSystem t) = Inr (PFloat (fsub fa fb))" by simp
next
  assume h: "int_operand du = Some i \<and> int_operand x = Some j"
  then have n: "isinstance_int_float du" "isinstance_int_float x"
    by (auto dest: int_operand_number)
  from h n show "calculate_heat_added du x = Inr (PInt (i + j))"
    by (simp add: calculate_heat_added_def numbers_pass_validation py_add_def
          py_arith_int_operands)
  from h n show "calculate_work_done du x = Inr (PInt (j - i))"
    by (simp add: calculate_work_done_def numbers_pass_validation py_sub_def
          py_arith_int_operands)
next
  assume h: "py_float du = Some (Inr fd) \<and> py_float x = Some (Inr fx)
        \<and> (int_operand du = None \<or> int_operand x = None)"
  then have n: "isinstance_int_float du" "isinstance_int_float x"
    by (auto dest: py_float_number)
  from h have a: "py_add du x = Inr (PFloat (fadd fd fx))"
    unfolding py_add_def by (intro py_arith_float_operands) auto
  from h have s: "py_sub x du = Inr (PFloat (fsub fx fd))"
    unfolding py_sub_def by (intro py_arith_float_operands) auto
  from n a show "calculate_heat_added du x = Inr (PFloat (fadd fd fx))"
    by (simp add: calculate_heat_added_def numbers_pass_validation)
  from n s show "calculate_work_done du x = Inr (PFloat (fsub fx fd))"
    by (simp add: calculate_work_done_def numbers_pass_validation)
qed

theorem calculators_compute_first_law_witness:
  "calculate_delta_u (PSystem (ThermodynamicSystem (PFloat (Fin 0 0)) (PFloat (Fin 100 0)) (PFloat (Fin 50 0))))
     = Inr (PFloat (Fin 50 0))
   \<and> calculate_heat_added (PInt (- 30)) (PFloat (Fin 20 0)) = Inr (PFloat (Fin (- 10) 0))
   \<and> calculate_work_done (PInt 50) (PInt 100) = Inr (PInt 50)"
proof -
  note t = calculators_compute_first_law
  have i: "init (PInt 0) (PInt 100) (PInt 50)
             = Inr (ThermodynamicSystem (PFloat (Fin 0 0)) (PFloat (Fin 100 0)) (PFloat (Fin 50 0)))"
    by code_simp
  have f: "py_float (PInt 100) = Some (Inr (Fin 100 0))" "py_float (PInt 50) = Some (Inr (Fin 50 0))"
    "fsub (Fin 100 0) (Fin 50 0) = Fin 50 0"
    by code_simp+
  from t [THEN conjunct2, THEN conjunct1, THEN mp, OF i]
  have 1: "calculate_delta_u (PSystem (ThermodynamicSystem (PFloat (Fin 0 0)) (PFloat (Fin 100 0)) (PFloat (Fin 50 0))))
     = Inr (PFloat (Fin 50 0))"
    using f by auto
  have m: "py_float (PInt (- 30)) = Some (Inr (Fin (- 30) 0))
           \<and> py_float (PFloat (Fin 20 0)) = Some (Inr (Fin 20 0))
           \<and> (int_operand (PInt (- 30)) = None \<or> int_operand (PFloat (Fin 20 0)) = None)"
    by code_simp
  have r: "fadd (Fin (- 30) 0) (Fin 20 0) = Fin (- 10) 0" by code_simp
  from t [THEN conjunct2, THEN conjunct2, THEN conjunct2, THEN mp, OF m] r
  have 2: "calculate_heat_added (PInt (- 30)) (PFloat (Fin 20 0)) = Inr (PFloat (Fin (- 10) 0))"
    by simp
  have n: "int_operand (PInt 50) = Some 50 \<and> int_operand (PInt 100) = Some 100" by simp
  from t [THEN conjunct2, THEN conjunct2, THEN conjunct1, THEN mp, OF n]
  have 3: "calculate_work_done (PInt 50) (PInt 100) = Inr (PInt 50)" by simp
  from 1 2 3 show ?thesis by blast
qed

text \<open>
  C1 as stated fails for integers: constructed with \<open>q = 2 ^ 53 + 1\<close> and \<open>w = 1\<close>, the
  entity stores \<open>float(q) = 2 ^ 53\<close>, and \<^verbatim>\<open>calculate_delta_u\<close> returns
  \<open>9007199254740991.0\<close>, which is not \<open>q - w = 9007199254740992\<close>.
\<close>

theorem calculators_compute_first_law_counterexample:
  "init default_arg (PInt 9007199254740993) (PInt 1)
     = Inr (ThermodynamicSystem default_arg (PFloat (Fin 4503599627370496 1)) (PFloat (Fin 1 0)))
   \<and> calculate_delta_u
        (PSystem (ThermodynamicSystem default_arg (PFloat (Fin 4503599627370496 1)) (PFloat (Fin 1 0))))
       = Inr (PFloat (Fin 9007199254740991 0))
   \<and> py_sub (PInt 9007199254740993) (PInt 1) = Inr (PInt 9007199254740992)
   \<and> \<not> py_eq (PFloat (Fin 9007199254740991 0)) (PInt 9007199254740992)"
  by code_simp


section \<open>The calculators as inverses\<close>

lemma two_powi_nat: "(2::rat) powi (int n) = 2 ^ n"
  by simp





































section \<open>Loading\<close>

lemma load_str:
  "load_system_from_json fs (PStr p) =
     (case and_then (open_read fs p) (\<lambda>d. and_then (json_load d) from_dict) of
        Inl e \<Rightarrow> Inl (load_handler p e) | Inr s \<Rightarrow> Inr s)"
  by (simp add: load_system_from_json_def)

lemma load_not_str:
  "(\<forall>p. filename \<noteq> PStr p) \<Longrightarrow>
   load_system_from_json fs filename = Inl (TypeError ''Input 'filename' must be a string.'')"
  by (cases filename) (simp_all add: load_system_from_json_def)

lemma load_content:
  "encode_fault fs p = None \<Longrightarrow> \<not> has_nul p \<Longrightarrow> read_fault fs p = None \<Longrightarrow>
   files fs p = Some (JsonText v) \<Longrightarrow>
   load_system_from_json fs (PStr p) =
     (case from_dict v of Inl e \<Rightarrow> Inl (load_handler p e) | Inr s \<Rightarrow> Inr s)"
  by (simp add: load_str open_read_def json_load_def and_then_def)





section \<open>Messages of type errors\<close>

lemma identifies_not_a_number_message:
  "identifies (not_a_number_message name v) name v"
  unfolding identifies_def not_a_number_message_def
  by (metis append.assoc sublist_appendI sublist_append_rightI)

lemma identifies_bad_value_message:
  "identifies (bad_value_message key v) key v"
  unfolding identifies_def bad_value_message_def
  by (metis append.assoc sublist_appendI)

lemma identifies_prefix:
  "identifies m name v \<Longrightarrow> identifies (pre @ m) name v"
  unfolding identifies_def sublist_def
  by (metis append.assoc)

lemma validate_float_error:
  "validate_float name v = Inl e \<Longrightarrow>
   (\<not> isinstance_int_float v \<and> e = TypeError (not_a_number_message name v))
   \<or> (isinstance_int_float v \<and> (\<exists>m. e = OverflowError m))"
  by (cases v)
     (auto simp: validate_float_def and_then_def float_of_int_def
           split: if_splits sum.splits pyfloat.splits)

lemma validate_float_type_error:
  "validate_float name v = Inl (TypeError msg) \<Longrightarrow>
   \<not> isinstance_int_float v \<and> msg = not_a_number_message name v"
  by (auto dest!: validate_float_error)

lemma validate_float_accepts:
  "validate_float name v = Inr x \<Longrightarrow> isinstance_int_float v"
  by (auto simp: validate_float_def split: if_splits)

lemma init_type_error:
  assumes "init a b c = Inl (TypeError msg)"
  shows "(\<not> isinstance_int_float a \<and> msg = not_a_number_message ''internal_energy'' a)
   \<or> (isinstance_int_float a \<and> \<not> isinstance_int_float b
        \<and> msg = not_a_number_message ''heat_added'' b)
   \<or> (isinstance_int_float a \<and> isinstance_int_float b \<and> \<not> isinstance_int_float c
        \<and> msg = not_a_number_message ''work_done'' c)"
proof (cases "validate_float ''internal_energy'' a")
  case (Inl e)
  with assms have "validate_float ''internal_energy'' a = Inl (TypeError msg)"
    by (simp add: init_def and_then_def)
  then show ?thesis by (auto dest: validate_float_type_error)
next
  case a: (Inr x)
  note na = validate_float_accepts [OF a]
  show ?thesis
  proof (cases "validate_float ''heat_added'' b")
    case (Inl e)
    with assms a have "validate_float ''heat_added'' b = Inl (TypeError msg)"
      by (simp add: init_def and_then_def)
    with na show ?thesis by (auto dest: validate_float_type_error)
  next
    case b: (Inr y)
    note nb = validate_float_accepts [OF b]
    from assms a b have "validate_float ''work_done'' c = Inl (TypeError msg)"
      by (simp add: init_def and_then_def split: sum.splits)
    with na nb show ?thesis by (auto dest: validate_float_type_error)
  qed
qed

lemma init_numbers_no_type_error:
  "isinstance_int_float a \<Longrightarrow> isinstance_int_float b \<Longrightarrow> isinstance_int_float c \<Longrightarrow>
   init a b c \<noteq> Inl (TypeError msg)"
  using init_type_error [of a b c msg] by auto

lemma setter_type_error:
  "fst (set_internal_energy s v) = Some (TypeError msg) \<Longrightarrow>
     \<not> isinstance_int_float v \<and> msg = not_a_number_message ''internal_energy'' v"
  "fst (set_heat_added s v) = Some (TypeError msg) \<Longrightarrow>
     \<not> isinstance_int_float v \<and> msg = not_a_number_message ''heat_added'' v"
  "fst (set_work_done s v) = Some (TypeError msg) \<Longrightarrow>
     \<not> isinstance_int_float v \<and> msg = not_a_number_message ''work_done'' v"
  by (auto simp: set_internal_energy_def set_heat_added_def set_work_done_def
           split: sum.splits dest: validate_float_type_error)

lemma py_float_of_number:
  "isinstance_int_float a \<Longrightarrow>
   \<exists>r. py_float a = Some r \<and> (\<forall>e. r = Inl e \<longrightarrow> (\<exists>m. e = OverflowError m))"
  by (cases a) (auto simp: float_of_int_def split: pyfloat.splits)

lemma py_arith_numbers_no_type_error:
  assumes "isinstance_int_float a" "isinstance_int_float b"
  shows "py_arith opname iop fop a b \<noteq> Inl (TypeError msg)"
proof -
  from py_float_of_number [OF assms(1)] obtain ra where
    ra: "py_float a = Some ra" "\<forall>e. ra = Inl e \<longrightarrow> (\<exists>m. e = OverflowError m)" by blast
  from py_float_of_number [OF assms(2)] obtain rb where
    rb: "py_float b = Some rb" "\<forall>e. rb = Inl e \<longrightarrow> (\<exists>m. e = OverflowError m)" by blast
  show ?thesis
    using ra rb
    by (cases ra; cases rb)
       (auto simp: py_arith_def and_then_def split: option.splits)
qed

lemma heat_added_validation:
  "validate_calculation_inputs du PNone w = Some e \<Longrightarrow> du \<noteq> PNone \<Longrightarrow> w \<noteq> PNone \<Longrightarrow>
   (\<not> isinstance_int_float du \<and> e = TypeError (not_a_number_message ''delta_u'' du))
   \<or> (isinstance_int_float du \<and> \<not> isinstance_int_float w
        \<and> e = TypeError (not_a_number_message ''work_done'' w))"
  by (simp add: validate_calculation_inputs_def split: if_splits)

lemma work_done_validation:
  "validate_calculation_inputs du q PNone = Some e \<Longrightarrow> du \<noteq> PNone \<Longrightarrow> q \<noteq> PNone \<Longrightarrow>
   (\<not> isinstance_int_float du \<and> e = TypeError (not_a_number_message ''delta_u'' du))
   \<or> (isinstance_int_float du \<and> \<not> isinstance_int_float q
        \<and> e = TypeError (not_a_number_message ''heat_added'' q))"
  by (simp add: validate_calculation_inputs_def split: if_splits)

lemma validation_passes:
  "validate_calculation_inputs a b c = None \<Longrightarrow>
   (a = PNone \<or> isinstance_int_float a) \<and> (b = PNone \<or> isinstance_int_float b)
   \<and> (c = PNone \<or> isinstance_int_float c)"
  by (simp add: validate_calculation_inputs_def split: if_splits)

lemma calculate_heat_added_type_error:
  assumes "calculate_heat_added du w = Inl (TypeError msg)" "du \<noteq> PNone" "w \<noteq> PNone"
  shows "(\<not> isinstance_int_float du \<and> msg = not_a_number_message ''delta_u'' du)
     \<or> (isinstance_int_float du \<and> \<not> isinstance_int_float w
          \<and> msg = not_a_number_message ''work_done'' w)"
proof (cases "validate_calculation_inputs du PNone w")
  case (Some e)
  with assms(1) have e: "e = TypeError msg" by (simp add: calculate_heat_added_def)
  from heat_added_validation [OF Some assms(2,3)] e show ?thesis by auto
next
  case None
  from validation_passes [OF None] assms(2,3)
  have "isinstance_int_float du" "isinstance_int_float w" by auto
  with assms(1) None show ?thesis
    by (simp add: calculate_heat_added_def py_add_def py_arith_numbers_no_type_error)
qed

lemma calculate_work_done_type_error:
  assumes "calculate_work_done du q = Inl (TypeError msg)" "du \<noteq> PNone" "q \<noteq> PNone"
  shows "(\<not> isinstance_int_float du \<and> msg = not_a_number_message ''delta_u'' du)
     \<or> (isinstance_int_float du \<and> \<not> isinstance_int_float q
          \<and> msg = not_a_number_message ''heat_added'' q)"
proof (cases "validate_calculation_inputs du q PNone")
  case (Some e)
  with assms(1) have e: "e = TypeError msg" by (simp add: calculate_work_done_def)
  from work_done_validation [OF Some assms(2,3)] e show ?thesis by auto
next
  case None
  from validation_passes [OF None] assms(2,3)
  have "isinstance_int_float du" "isinstance_int_float q" by auto
  with assms(1) None show ?thesis
    by (simp add: calculate_work_done_def py_sub_def py_arith_numbers_no_type_error)
qed

lemma is_float_number: "is_float v \<Longrightarrow> isinstance_int_float v"
  by (cases v) simp_all

lemma calculate_delta_u_entity_no_type_error:
  "fields_are_floats s \<Longrightarrow> calculate_delta_u (PSystem s) \<noteq> Inl (TypeError msg)"
  by (simp add: calculate_delta_u_def validate_calculation_inputs_def fields_are_floats_def
        is_float_number py_sub_def py_arith_numbers_no_type_error)

lemma calculate_delta_u_not_entity:
  "(\<forall>s. x \<noteq> PSystem s) \<Longrightarrow>
   calculate_delta_u x = Inl (TypeError ''Input must be an instance of ThermodynamicSystem.'')"
  by (cases x) (simp_all add: calculate_delta_u_def)

lemma from_dict_type_error:
  assumes "from_dict (PDict d) = Inl (TypeError msg)"
  shows "(\<exists>v. map_of d ''internal_energy'' = Some v \<and> \<not> isinstance_int_float v
             \<and> msg = bad_value_message ''internal_energy'' v)
     \<or> (\<exists>a v. map_of d ''internal_energy'' = Some a \<and> isinstance_int_float a
             \<and> map_of d ''heat_added'' = Some v \<and> \<not> isinstance_int_float v
             \<and> msg = bad_value_message ''heat_added'' v)
     \<or> (\<exists>a b v. map_of d ''internal_energy'' = Some a \<and> isinstance_int_float a
             \<and> map_of d ''heat_added'' = Some b \<and> isinstance_int_float b
             \<and> map_of d ''work_done'' = Some v \<and> \<not> isinstance_int_float v
             \<and> msg = bad_value_message ''work_done'' v)"
  using assms unfolding from_dict_PDict
  by (auto split: option.splits if_splits simp: init_numbers_no_type_error)

lemma save_not_entity:
  "(\<forall>s. x \<noteq> PSystem s) \<Longrightarrow>
   save_system_to_json fs x filename
     = Inl (TypeError ''Input 'system' must be an instance of ThermodynamicSystem.'')"
  by (cases x) (simp_all add: save_system_to_json_def)

lemma save_not_str:
  "(\<forall>p. filename \<noteq> PStr p) \<Longrightarrow>
   save_system_to_json fs (PSystem s) filename
     = Inl (TypeError ''Input 'filename' must be a string.'')"
  by (cases filename) (simp_all add: save_system_to_json_def)

lemma load_dict_type_error:
  assumes "encode_fault fs p = None" "\<not> has_nul p" "read_fault fs p = None"
    "files fs p = Some (JsonText (PDict d))"
    "load_system_from_json fs (PStr p) = Inl (TypeError msg)"
  shows "\<exists>m. from_dict (PDict d) = Inl (TypeError m)
           \<and> msg = ''Error parsing system data from '' @ p @ '': '' @ m"
proof -
  from assms obtain e where e: "from_dict (PDict d) = Inl e" "load_handler p e = TypeError msg"
    by (auto simp: load_content split: sum.splits)
  have ne: "e \<noteq> UnicodeDecodeError u" for u
  proof
    assume "e = UnicodeDecodeError u"
    with e(1) show False
      unfolding from_dict_PDict
      by (auto split: option.splits if_splits
               simp: init_def and_then_def split: sum.splits dest!: validate_float_error)
  qed
  have nc: "e \<noteq> UnicodeEncodeError u" for u
  proof
    assume "e = UnicodeEncodeError u"
    with e(1) show False
      unfolding from_dict_PDict
      by (auto split: option.splits if_splits
               simp: init_def and_then_def split: sum.splits dest!: validate_float_error)
  qed
  from e(2) ne nc obtain m where "e = TypeError m"
    "msg = ''Error parsing system data from '' @ p @ '': '' @ m"
    by (cases e) auto
  with e(1) show ?thesis by blast
qed


lemma is_float_serializable: "is_float v \<Longrightarrow> json_serializable v"
  by (cases v) simp_all

lemma json_dump_to_dict:
  "fields_are_floats s \<Longrightarrow> json_dump (to_dict s) = Inr (JsonText (to_dict s))"
  by (simp add: json_dump_def to_dict_def fields_are_floats_def is_float_serializable)

lemma save_entity:
  "fields_are_floats s \<Longrightarrow>
   save_system_to_json fs (PSystem s) (PStr p) =
     (case encode_fault fs p of
        Some m \<Rightarrow> Inl (UnicodeEncodeError m)
      | None \<Rightarrow>
          if has_nul p then Inl (ValueError ''embedded null byte'')
          else case write_fault fs p of
            Some m \<Rightarrow> Inl (OSError (''Failed to save system to '' @ p @ '': '' @ m))
          | None \<Rightarrow> Inr (if p \<in> sinks fs then fs
                         else fs\<lparr>files := (files fs)(p \<mapsto> JsonText (to_dict s))\<rparr>))"
  by (simp add: save_system_to_json_def json_dump_to_dict and_then_def split: option.splits)

lemma save_entity_no_type_error:
  "fields_are_floats s \<Longrightarrow> save_system_to_json fs (PSystem s) (PStr p) \<noteq> Inl (TypeError msg)"
  by (simp add: save_entity split: option.splits)

lemma load_dict_type_error_cases:
  assumes "encode_fault fs p = None \<and> \<not> has_nul p \<and> read_fault fs p = None
    \<and> files fs p = Some (JsonText (PDict d))
    \<and> load_system_from_json fs (PStr p) = Inl (TypeError msg)"
  shows "(\<exists>v. map_of d ''internal_energy'' = Some v \<and> \<not> isinstance_int_float v
             \<and> msg = ''Error parsing system data from '' @ p @ '': ''
                   @ bad_value_message ''internal_energy'' v)
     \<or> (\<exists>a v. map_of d ''internal_energy'' = Some a \<and> isinstance_int_float a
             \<and> map_of d ''heat_added'' = Some v \<and> \<not> isinstance_int_float v
             \<and> msg = ''Error parsing system data from '' @ p @ '': ''
                   @ bad_value_message ''heat_added'' v)
     \<or> (\<exists>a b v. map_of d ''internal_energy'' = Some a \<and> isinstance_int_float a
             \<and> map_of d ''heat_added'' = Some b \<and> isinstance_int_float b
             \<and> map_of d ''work_done'' = Some v \<and> \<not> isinstance_int_float v
             \<and> msg = ''Error parsing system data from '' @ p @ '': ''
                   @ bad_value_message ''work_done'' v)"
proof -
  from assms load_dict_type_error [of fs p d msg] obtain m where
    m: "from_dict (PDict d) = Inl (TypeError m)"
       "msg = ''Error parsing system data from '' @ p @ '': '' @ m" by blast
  from from_dict_type_error [OF m(1)] show ?thesis
    unfolding m(2) by (elim disjE exE conjE) (simp_all only: same_append_eq, blast+)
qed

text \<open>
  C8, amended. A \<open>TypeError\<close> raised by the validation of a number carries exactly the
  message \<^verbatim>\<open>"<name> must be a float or an integer, but got <type>."\<close> (from
  \<^verbatim>\<open>from_dict\<close>: \<^verbatim>\<open>"Value for '<name>' must be a float, but got <type>."\<close>, and after the
  prefix naming the path when \<^verbatim>\<open>load_system_from_json\<close> re-raises it), where the name
  is that of the first field, parameter or key, in the order of the checks, whose value
  is neither an integer nor a float, and the type is the name of the run-time type of
  that very value. This holds in construction, in each setter, for the parameters of
  \<^verbatim>\<open>calculate_heat_added\<close> and \<^verbatim>\<open>calculate_work_done\<close> when none is \<^verbatim>\<open>None\<close>, and for
  \<^verbatim>\<open>from_dict\<close> on a dictionary, read from a file or not; both messages contain the name
  and the type name. An entity whose fields are floats never makes \<^verbatim>\<open>calculate_delta_u\<close>
  or \<^verbatim>\<open>save_system_to_json\<close> raise a \<open>TypeError\<close>. The \<open>TypeError\<close> for an argument that
  is not an entity (\<^verbatim>\<open>calculate_delta_u\<close>, \<^verbatim>\<open>save_system_to_json\<close>) and for a file name
  that is not a string (\<^verbatim>\<open>save_system_to_json\<close>, \<^verbatim>\<open>load_system_from_json\<close>) carries a
  fixed message, without the type received.
\<close>

theorem type_errors_identify_name_and_type:
  "(init a b c = Inl (TypeError msg) \<longrightarrow>
      (\<not> isinstance_int_float a \<and> msg = not_a_number_message ''internal_energy'' a)
      \<or> (isinstance_int_float a \<and> \<not> isinstance_int_float b
           \<and> msg = not_a_number_message ''heat_added'' b)
      \<or> (isinstance_int_float a \<and> isinstance_int_float b \<and> \<not> isinstance_int_float c
           \<and> msg = not_a_number_message ''work_done'' c))
   \<and> (fst (set_internal_energy s v) = Some (TypeError msg) \<longrightarrow>
        \<not> isinstance_int_float v \<and> msg = not_a_number_message ''internal_energy'' v)
   \<and> (fst (set_heat_added s v) = Some (TypeError msg) \<longrightarrow>
        \<not> isinstance_int_float v \<and> msg = not_a_number_message ''heat_added'' v)
   \<and> (fst (set_work_done s v) = Some (TypeError msg) \<longrightarrow>
        \<not> isinstance_int_float v \<and> msg = not_a_number_message ''work_done'' v)
   \<and> (calculate_heat_added du w = Inl (TypeError msg) \<and> du \<noteq> PNone \<and> w \<noteq> PNone \<longrightarrow>
        (\<not> isinstance_int_float du \<and> msg = not_a_number_message ''delta_u'' du)
        \<or> (isinstance_int_float du \<and> \<not> isinstance_int_float w
             \<and> msg = not_a_number_message ''work_done'' w))
   \<and> (calculate_work_done du q = Inl (TypeError msg) \<and> du \<noteq> PNone \<and> q \<noteq> PNone \<longrightarrow>
        (\<not> isinstance_int_float du \<and> msg = not_a_number_message ''delta_u'' du)
        \<or> (isinstance_int_float du \<and> \<not> isinstance_int_float q
             \<and> msg = not_a_number_message ''heat_added'' q))
   \<and> (fields_are_floats s \<longrightarrow>
        calculate_delta_u (PSystem s) \<noteq> Inl (TypeError msg)
        \<and> save_system_to_json fs (PSystem s) (PStr p) \<noteq> Inl (TypeError msg))
   \<and> (from_dict (PDict d) = Inl (TypeError msg) \<longrightarrow>
        (\<exists>x. map_of d ''internal_energy'' = Some x \<and> \<not> isinstance_int_float x
              \<and> msg = bad_value_message ''internal_energy'' x)
        \<or> (\<exists>x1 x. map_of d ''internal_energy'' = Some x1 \<and> isinstance_int_float x1
              \<and> map_of d ''heat_added'' = Some x \<and> \<not> isinstance_int_float x
              \<and> msg = bad_value_message ''heat_added'' x)
        \<or> (\<exists>x1 x2 x. map_of d ''internal_energy'' = Some x1 \<and> isinstance_int_float x1
              \<and> map_of d ''heat_added'' = Some x2 \<and> isinstance_int_float x2
              \<and> map_of d ''work_done'' = Some x \<and> \<not> isinstance_int_float x
              \<and> msg = bad_value_message ''work_done'' x))
   \<and> (encode_fault fs p = None \<and> \<not> has_nul p \<and> read_fault fs p = None
        \<and> files fs p = Some (JsonText (PDict d))
        \<and> load_system_from_json fs (PStr p) = Inl (TypeError msg) \<longrightarrow>
        (\<exists>x. map_of d ''internal_energy'' = Some x \<and> \<not> isinstance_int_float x
              \<and> msg = ''Error parsing system data from '' @ p @ '': ''
                    @ bad_value_message ''internal_energy'' x)
        \<or> (\<exists>x1 x. map_of d ''internal_energy'' = Some x1 \<and> isinstance_int_float x1
              \<and> map_of d ''heat_added'' = Some x \<and> \<not> isinstance_int_float x
              \<and> msg = ''Error parsing system data from '' @ p @ '': ''
                    @ bad_value_message ''heat_added'' x)
        \<or> (\<exists>x1 x2 x. map_of d ''internal_energy'' = Some x1 \<and> isinstance_int_float x1
              \<and> map_of d ''heat_added'' = Some x2 \<and> isinstance_int_float x2
              \<and> map_of d ''work_done'' = Some x \<and> \<not> isinstance_int_float x
              \<and> msg = ''Error parsing system data from '' @ p @ '': ''
                    @ bad_value_message ''work_done'' x))
   \<and> not_a_number_message name x
       = name @ '' must be a float or an integer, but got '' @ type_name x @ ''.''
   \<and> bad_value_message name x
       = ''Value for '' @ sq @ name @ sq @ '' must be a float, but got '' @ type_name x @ ''.''
   \<and> identifies (not_a_number_message name x) name x
   \<and> identifies (bad_value_message name x) name x
   \<and> identifies (''Error parsing system data from '' @ p @ '': '' @ bad_value_message name x)
        name x
   \<and> ((\<forall>t. y \<noteq> PSystem t) \<longrightarrow>
        calculate_delta_u y = Inl (TypeError ''Input must be an instance of ThermodynamicSystem.'')
        \<and> save_system_to_json fs y filename
            = Inl (TypeError ''Input 'system' must be an instance of ThermodynamicSystem.''))
   \<and> ((\<forall>n. filename \<noteq> PStr n) \<longrightarrow>
        save_system_to_json fs (PSystem s) filename
          = Inl (TypeError ''Input 'filename' must be a string.'')
        \<and> load_system_from_json fs filename
            = Inl (TypeError ''Input 'filename' must be a string.''))"
proof (intro conjI impI)
  show "(\<not> isinstance_int_float a \<and> msg = not_a_number_message ''internal_energy'' a)
      \<or> (isinstance_int_float a \<and> \<not> isinstance_int_float b
           \<and> msg = not_a_number_message ''heat_added'' b)
      \<or> (isinstance_int_float a \<and> isinstance_int_float b \<and> \<not> isinstance_int_float c
           \<and> msg = not_a_number_message ''work_done'' c)"
    if "init a b c = Inl (TypeError msg)"
    using that by (rule init_type_error)
  show "(\<not> isinstance_int_float du \<and> msg = not_a_number_message ''delta_u'' du)
        \<or> (isinstance_int_float du \<and> \<not> isinstance_int_float w
             \<and> msg = not_a_number_message ''work_done'' w)"
    if "calculate_heat_added du w = Inl (TypeError msg) \<and> du \<noteq> PNone \<and> w \<noteq> PNone"
    using that calculate_heat_added_type_error by blast
  show "(\<not> isinstance_int_float du \<and> msg = not_a_number_message ''delta_u'' du)
        \<or> (isinstance_int_float du \<and> \<not> isinstance_int_float q
             \<and> msg = not_a_number_message ''heat_added'' q)"
    if "calculate_work_done du q = Inl (TypeError msg) \<and> du \<noteq> PNone \<and> q \<noteq> PNone"
    using that calculate_work_done_type_error by blast
  show "(\<exists>x. map_of d ''internal_energy'' = Some x \<and> \<not> isinstance_int_float x
              \<and> msg = bad_value_message ''internal_energy'' x)
        \<or> (\<exists>x1 x. map_of d ''internal_energy'' = Some x1 \<and> isinstance_int_float x1
              \<and> map_of d ''heat_added'' = Some x \<and> \<not> isinstance_int_float x
              \<and> msg = bad_value_message ''heat_added'' x)
        \<or> (\<exists>x1 x2 x. map_of d ''internal_energy'' = Some x1 \<and> isinstance_int_float x1
              \<and> map_of d ''heat_added'' = Some x2 \<and> isinstance_int_float x2
              \<and> map_of d ''work_done'' = Some x \<and> \<not> isinstance_int_float x
              \<and> msg = bad_value_message ''work_done'' x)"
    if "from_dict (PDict d) = Inl (TypeError msg)"
    using that by (rule from_dict_type_error)
  show "(\<exists>x. map_of d ''internal_energy'' = Some x \<and> \<not> isinstance_int_float x
              \<and> msg = ''Error parsing system data from '' @ p @ '': ''
                    @ bad_value_message ''internal_energy'' x)
        \<or> (\<exists>x1 x. map_of d ''internal_energy'' = Some x1 \<and> isinstance_int_float x1
              \<and> map_of d ''heat_added'' = Some x \<and> \<not> isinstance_int_float x
              \<and> msg = ''Error parsing system data from '' @ p @ '': ''
                    @ bad_value_message ''heat_added'' x)
        \<or> (\<exists>x1 x2 x. map_of d ''internal_energy'' = Some x1 \<and> isinstance_int_float x1
              \<and> map_of d ''heat_added'' = Some x2 \<and> isinstance_int_float x2
              \<and> map_of d ''work_done'' = Some x \<and> \<not> isinstance_int_float x
              \<and> msg = ''Error parsing system data from '' @ p @ '': ''
                    @ bad_value_message ''work_done'' x)"
    if "encode_fault fs p = None \<and> \<not> has_nul p \<and> read_fault fs p = None
        \<and> files fs p = Some (JsonText (PDict d))
        \<and> load_system_from_json fs (PStr p) = Inl (TypeError msg)"
    using that by (rule load_dict_type_error_cases)
  show "not_a_number_message name x
       = name @ '' must be a float or an integer, but got '' @ type_name x @ ''.''"
    by (simp only: not_a_number_message_def)
  show "bad_value_message name x
       = ''Value for '' @ sq @ name @ sq @ '' must be a float, but got '' @ type_name x @ ''.''"
    by (simp only: bad_value_message_def)
  show "identifies (''Error parsing system data from '' @ p @ '': '' @ bad_value_message name x)
        name x"
    using identifies_prefix [OF identifies_bad_value_message,
        of "''Error parsing system data from '' @ p @ '': ''" name x]
    by (simp only: append_assoc)
qed (simp_all add: setter_type_error calculate_delta_u_not_entity save_not_entity
       save_not_str load_not_str identifies_not_a_number_message identifies_bad_value_message
       calculate_delta_u_entity_no_type_error save_entity_no_type_error)


theorem type_errors_identify_name_and_type_witness:
  "((\<not> isinstance_int_float (PStr ''invalid'')
      \<and> ''internal_energy must be a float or an integer, but got str.''
          = not_a_number_message ''internal_energy'' (PStr ''invalid''))
     \<or> (isinstance_int_float (PStr ''invalid'') \<and> \<not> isinstance_int_float default_arg
          \<and> ''internal_energy must be a float or an integer, but got str.''
              = not_a_number_message ''heat_added'' default_arg)
     \<or> (isinstance_int_float (PStr ''invalid'') \<and> isinstance_int_float default_arg
          \<and> \<not> isinstance_int_float default_arg
          \<and> ''internal_energy must be a float or an integer, but got str.''
              = not_a_number_message ''work_done'' default_arg))
   \<and> (\<not> isinstance_int_float (PStr ''wrong type'')
        \<and> ''internal_energy must be a float or an integer, but got str.''
            = not_a_number_message ''internal_energy'' (PStr ''wrong type''))
   \<and> (\<not> isinstance_int_float PNone
        \<and> ''heat_added must be a float or an integer, but got NoneType.''
            = not_a_number_message ''heat_added'' PNone)
   \<and> (\<not> isinstance_int_float (PList [PInt 10])
        \<and> ''work_done must be a float or an integer, but got list.''
            = not_a_number_message ''work_done'' (PList [PInt 10]))
   \<and> ((\<not> isinstance_int_float (PFloat (Fin 10 0))
          \<and> ''work_done must be a float or an integer, but got str.''
              = not_a_number_message ''delta_u'' (PFloat (Fin 10 0)))
        \<or> (isinstance_int_float (PFloat (Fin 10 0)) \<and> \<not> isinstance_int_float (PStr ''invalid'')
             \<and> ''work_done must be a float or an integer, but got str.''
                 = not_a_number_message ''work_done'' (PStr ''invalid'')))
   \<and> ((\<not> isinstance_int_float (PFloat (Fin 10 0))
          \<and> ''heat_added must be a float or an integer, but got dict.''
              = not_a_number_message ''delta_u'' (PFloat (Fin 10 0)))
        \<or> (isinstance_int_float (PFloat (Fin 10 0))
             \<and> \<not> isinstance_int_float (PDict [(''Q'', PFloat (Fin 20 0))])
             \<and> ''heat_added must be a float or an integer, but got dict.''
                 = not_a_number_message ''heat_added'' (PDict [(''Q'', PFloat (Fin 20 0))])))
   \<and> (fields_are_floats (ThermodynamicSystem default_arg default_arg default_arg)
        \<and> calculate_delta_u (PSystem (ThermodynamicSystem default_arg default_arg default_arg))
            \<noteq> Inl (TypeError ''Input must be an instance of ThermodynamicSystem.'')
        \<and> save_system_to_json empty_fs
              (PSystem (ThermodynamicSystem default_arg default_arg default_arg))
              (PStr ''system.json'')
            \<noteq> Inl (TypeError ''Input must be an instance of ThermodynamicSystem.''))
   \<and> (from_dict (PDict [(''internal_energy'', PInt 100), (''heat_added'', PStr ''fifty''),
                         (''work_done'', PNone)])
         = Inl (TypeError ''Value for 'heat_added' must be a float, but got str.'')
        \<and> ((\<exists>x. map_of [(''internal_energy'', PInt 100), (''heat_added'', PStr ''fifty''),
                          (''work_done'', PNone)] ''internal_energy'' = Some x
                 \<and> \<not> isinstance_int_float x
                 \<and> ''Value for 'heat_added' must be a float, but got str.''
                     = bad_value_message ''internal_energy'' x)
           \<or> (\<exists>x1 x. map_of [(''internal_energy'', PInt 100), (''heat_added'', PStr ''fifty''),
                          (''work_done'', PNone)] ''internal_energy'' = Some x1
                 \<and> isinstance_int_float x1
                 \<and> map_of [(''internal_energy'', PInt 100), (''heat_added'', PStr ''fifty''),
                          (''work_done'', PNone)] ''heat_added'' = Some x
                 \<and> \<not> isinstance_int_float x
                 \<and> ''Value for 'heat_added' must be a float, but got str.''
                     = bad_value_message ''heat_added'' x)
           \<or> (\<exists>x1 x2 x. map_of [(''internal_energy'', PInt 100), (''heat_added'', PStr ''fifty''),
                          (''work_done'', PNone)] ''internal_energy'' = Some x1
                 \<and> isinstance_int_float x1
                 \<and> map_of [(''internal_energy'', PInt 100), (''heat_added'', PStr ''fifty''),
                          (''work_done'', PNone)] ''heat_added'' = Some x2
                 \<and> isinstance_int_float x2
                 \<and> map_of [(''internal_energy'', PInt 100), (''heat_added'', PStr ''fifty''),
                          (''work_done'', PNone)] ''work_done'' = Some x
                 \<and> \<not> isinstance_int_float x
                 \<and> ''Value for 'heat_added' must be a float, but got str.''
                     = bad_value_message ''work_done'' x)))
   \<and> (load_system_from_json example_fs (PStr ''string.json'')
         = Inl (TypeError ''Error parsing system data from string.json: Value for 'internal_energy' must be a float, but got str.'')
        \<and> ((\<exists>x. map_of [(''internal_energy'', PStr ''100.0''), (''heat_added'', PFloat (Fin 50 0)),
                          (''work_done'', PFloat (Fin 20 0))] ''internal_energy'' = Some x
                 \<and> \<not> isinstance_int_float x
                 \<and> ''Error parsing system data from string.json: Value for 'internal_energy' must be a float, but got str.''
                     = ''Error parsing system data from '' @ ''string.json'' @ '': ''
                        @ bad_value_message ''internal_energy'' x)
           \<or> (\<exists>x1 x. map_of [(''internal_energy'', PStr ''100.0''), (''heat_added'', PFloat (Fin 50 0)),
                          (''work_done'', PFloat (Fin 20 0))] ''internal_energy'' = Some x1
                 \<and> isinstance_int_float x1
                 \<and> map_of [(''internal_energy'', PStr ''100.0''), (''heat_added'', PFloat (Fin 50 0)),
                          (''work_done'', PFloat (Fin 20 0))] ''heat_added'' = Some x
                 \<and> \<not> isinstance_int_float x
                 \<and> ''Error parsing system data from string.json: Value for 'internal_energy' must be a float, but got str.''
                     = ''Error parsing system data from '' @ ''string.json'' @ '': ''
                        @ bad_value_message ''heat_added'' x)
           \<or> (\<exists>x1 x2 x. map_of [(''internal_energy'', PStr ''100.0''), (''heat_added'', PFloat (Fin 50 0)),
                          (''work_done'', PFloat (Fin 20 0))] ''internal_energy'' = Some x1
                 \<and> isinstance_int_float x1
                 \<and> map_of [(''internal_energy'', PStr ''100.0''), (''heat_added'', PFloat (Fin 50 0)),
                          (''work_done'', PFloat (Fin 20 0))] ''heat_added'' = Some x2
                 \<and> isinstance_int_float x2
                 \<and> map_of [(''internal_energy'', PStr ''100.0''), (''heat_added'', PFloat (Fin 50 0)),
                          (''work_done'', PFloat (Fin 20 0))] ''work_done'' = Some x
                 \<and> \<not> isinstance_int_float x
                 \<and> ''Error parsing system data from string.json: Value for 'internal_energy' must be a float, but got str.''
                     = ''Error parsing system data from '' @ ''string.json'' @ '': ''
                        @ bad_value_message ''work_done'' x)))
   \<and> calculate_delta_u (PStr ''not a system'')
       = Inl (TypeError ''Input must be an instance of ThermodynamicSystem.'')
   \<and> save_system_to_json empty_fs (PSystem (ThermodynamicSystem default_arg default_arg default_arg)) (PInt 123)
       = Inl (TypeError ''Input 'filename' must be a string.'')"
proof -
  note t = type_errors_identify_name_and_type
  let ?s = "ThermodynamicSystem default_arg default_arg default_arg"
  let ?d = "[(''internal_energy'', PInt 100), (''heat_added'', PStr ''fifty''),
             (''work_done'', PNone)]"
  have 1: "init (PStr ''invalid'') default_arg default_arg
             = Inl (TypeError ''internal_energy must be a float or an integer, but got str.'')"
    by code_simp
  have 2: "fst (set_internal_energy ?s (PStr ''wrong type''))
             = Some (TypeError ''internal_energy must be a float or an integer, but got str.'')"
    by code_simp
  have 3: "fst (set_heat_added ?s PNone)
             = Some (TypeError ''heat_added must be a float or an integer, but got NoneType.'')"
    by code_simp
  have 4: "fst (set_work_done ?s (PList [PInt 10]))
             = Some (TypeError ''work_done must be a float or an integer, but got list.'')"
    by code_simp
  have 5: "calculate_heat_added (PFloat (Fin 10 0)) (PStr ''invalid'')
             = Inl (TypeError ''work_done must be a float or an integer, but got str.'')
           \<and> PFloat (Fin 10 0) \<noteq> PNone \<and> PStr ''invalid'' \<noteq> PNone"
    by code_simp
  have 6: "calculate_work_done (PFloat (Fin 10 0)) (PDict [(''Q'', PFloat (Fin 20 0))])
             = Inl (TypeError ''heat_added must be a float or an integer, but got dict.'')
           \<and> PFloat (Fin 10 0) \<noteq> PNone \<and> PDict [(''Q'', PFloat (Fin 20 0))] \<noteq> PNone"
    by code_simp
  have 7: "fields_are_floats ?s" by code_simp
  have 8: "from_dict (PDict ?d)
             = Inl (TypeError ''Value for 'heat_added' must be a float, but got str.'')"
    by code_simp
  have 9: "encode_fault example_fs ''string.json'' = None
           \<and> \<not> has_nul ''string.json'' \<and> read_fault example_fs ''string.json'' = None
           \<and> files example_fs ''string.json''
               = Some (JsonText (PDict [(''internal_energy'', PStr ''100.0''),
                                        (''heat_added'', PFloat (Fin 50 0)),
                                        (''work_done'', PFloat (Fin 20 0))]))
           \<and> load_system_from_json example_fs (PStr ''string.json'')
               = Inl (TypeError ''Error parsing system data from string.json: Value for 'internal_energy' must be a float, but got str.'')"
    by code_simp
  have 10: "\<forall>t. PStr ''not a system'' \<noteq> PSystem t" by simp
  have 11: "\<forall>n. PInt 123 \<noteq> PStr n" by simp
  note c1 = t [THEN conjunct1, THEN mp, OF 1]
  note r1 = t [THEN conjunct2]
  note c2 = r1 [THEN conjunct1, THEN mp, OF 2]
  note r2 = r1 [THEN conjunct2]
  note c3 = r2 [THEN conjunct1, THEN mp, OF 3]
  note r3 = r2 [THEN conjunct2]
  note c4 = r3 [THEN conjunct1, THEN mp, OF 4]
  note r4 = r3 [THEN conjunct2]
  note c5 = r4 [THEN conjunct1, THEN mp, OF 5]
  note r5 = r4 [THEN conjunct2]
  note c6 = r5 [THEN conjunct1, THEN mp, OF 6]
  note r6 = r5 [THEN conjunct2]
  note c7 = r6 [THEN conjunct1, THEN mp, OF 7,
                of "''Input must be an instance of ThermodynamicSystem.''" empty_fs "''system.json''"]
  note r7 = r6 [THEN conjunct2]
  note c8 = r7 [THEN conjunct1, THEN mp, OF 8]
  note r8 = r7 [THEN conjunct2]
  note c9 = r8 [THEN conjunct1, THEN mp, OF 9]
  note r9 = r8 [THEN conjunct2, THEN conjunct2, THEN conjunct2, THEN conjunct2, THEN conjunct2,
                THEN conjunct2]
  note c10 = r9 [THEN conjunct1, THEN mp, OF 10, THEN conjunct1]
  note c11 = r9 [THEN conjunct2, THEN mp, OF 11, THEN conjunct1, of empty_fs ?s]
  from 9 have l9: "load_system_from_json example_fs (PStr ''string.json'')
         = Inl (TypeError ''Error parsing system data from string.json: Value for 'internal_energy' must be a float, but got str.'')"
    by (elim conjE)
  show ?thesis
    by (intro conjI c1 c2 [THEN conjunct1] c2 [THEN conjunct2] c3 [THEN conjunct1]
          c3 [THEN conjunct2] c4 [THEN conjunct1] c4 [THEN conjunct2] c5 c6 7
          c7 [THEN conjunct1] c7 [THEN conjunct2] 8 c8 l9 c9 c10 c11)
qed

text \<open>
  C8 as stated fails: the messages for a non-entity argument and for a file name that is
  not a string do not contain the type of the value received.
\<close>

theorem type_error_without_type_counterexample:
  "calculate_delta_u (PStr ''not a system'')
     = Inl (TypeError ''Input must be an instance of ThermodynamicSystem.'')
   \<and> \<not> sublist (type_name (PStr ''not a system''))
          ''Input must be an instance of ThermodynamicSystem.''
   \<and> load_system_from_json empty_fs PNone
       = Inl (TypeError ''Input 'filename' must be a string.'')
   \<and> \<not> sublist (type_name PNone) ''Input 'filename' must be a string.''"
  by code_simp

section \<open>The JSON round trip\<close>

lemma ordinary_float_is_float: "ordinary_float v \<Longrightarrow> is_float v"
  by (cases v) simp_all

lemma ordinary_float_eq_self: "ordinary_float v \<Longrightarrow> py_eq v v"
proof (cases v)
  case (PFloat f)
  assume "ordinary_float v"
  with PFloat show ?thesis by (cases f) simp_all
qed simp_all

lemma ordinary_fields_floats: "ordinary_fields s \<Longrightarrow> fields_are_floats s"
  by (simp add: ordinary_fields_def fields_are_floats_def ordinary_float_is_float)

lemma is_float_validate: "is_float v \<Longrightarrow> validate_float name v = Inr v"
  by (cases v) (simp_all add: validate_float_float)

lemma from_dict_to_dict:
  "fields_are_floats s \<Longrightarrow> from_dict (to_dict s) = Inr s"
  by (cases s)
     (simp add: to_dict_def from_dict_PDict fields_are_floats_def is_float_number init_def
        is_float_validate and_then_def)

text \<open>
  C2, amended. JSON round trip: for an entity whose fields hold numbers (positive,
  negative, zero or fractional) and a path that can be encoded, holds no NUL character,
  that the system lets be written and read and that keeps what is written to it, saving
  succeeds, and loading
  from the file system that results returns an entity equal to the original under
  \<^verbatim>\<open>__eq__\<close>, in both directions.
\<close>

theorem json_round_trip:
  "ordinary_fields s \<and> encode_fault fs p = None \<and> \<not> has_nul p
     \<and> write_fault fs p = None \<and> read_fault fs p = None \<and> p \<notin> sinks fs \<longrightarrow>
     (\<exists>fs' t. save_system_to_json fs (PSystem s) (PStr p) = Inr fs'
             \<and> load_system_from_json fs' (PStr p) = Inr t
             \<and> system_eq s (PSystem t) \<and> system_eq t (PSystem s))"
proof
  assume h: "ordinary_fields s \<and> encode_fault fs p = None \<and> \<not> has_nul p
     \<and> write_fault fs p = None \<and> read_fault fs p = None \<and> p \<notin> sinks fs"
  then have fl: "fields_are_floats s" by (simp add: ordinary_fields_floats)
  let ?fs = "fs\<lparr>files := (files fs)(p \<mapsto> JsonText (to_dict s))\<rparr>"
  have sv: "save_system_to_json fs (PSystem s) (PStr p) = Inr ?fs"
    using h fl by (simp add: save_entity)
  have ld: "load_system_from_json ?fs (PStr p) = Inr s"
    using h fl by (simp add: load_content [where v = "to_dict s"] from_dict_to_dict)
  have eq: "system_eq s (PSystem s)"
    using h by (simp add: ordinary_fields_def ordinary_float_eq_self)
  from sv ld eq show "\<exists>fs' t. save_system_to_json fs (PSystem s) (PStr p) = Inr fs'
             \<and> load_system_from_json fs' (PStr p) = Inr t
             \<and> system_eq s (PSystem t) \<and> system_eq t (PSystem s)" by blast
qed

theorem json_round_trip_witness:
  "ordinary_fields (ThermodynamicSystem (PFloat (Fin 151 (- 1))) (PFloat (Fin (- 10) 0)) (PFloat (Fin 0 0)))
   \<and> (\<exists>fs' t. save_system_to_json empty_fs
                 (PSystem (ThermodynamicSystem (PFloat (Fin 151 (- 1))) (PFloat (Fin (- 10) 0)) (PFloat (Fin 0 0))))
                 (PStr ''system.json'') = Inr fs'
             \<and> load_system_from_json fs' (PStr ''system.json'') = Inr t
             \<and> system_eq (ThermodynamicSystem (PFloat (Fin 151 (- 1))) (PFloat (Fin (- 10) 0)) (PFloat (Fin 0 0))) (PSystem t)
             \<and> system_eq t (PSystem (ThermodynamicSystem (PFloat (Fin 151 (- 1))) (PFloat (Fin (- 10) 0)) (PFloat (Fin 0 0)))))"
proof -
  have h: "ordinary_fields (ThermodynamicSystem (PFloat (Fin 151 (- 1))) (PFloat (Fin (- 10) 0)) (PFloat (Fin 0 0)))
           \<and> encode_fault empty_fs ''system.json'' = None \<and> \<not> has_nul ''system.json''
           \<and> write_fault empty_fs ''system.json'' = None \<and> read_fault empty_fs ''system.json'' = None
           \<and> ''system.json'' \<notin> sinks empty_fs"
    by (simp add: ordinary_fields_def empty_fs_def has_nul_def)
  from json_round_trip [THEN mp, OF h] h show ?thesis by blast
qed

text \<open>
  C2 as stated fails, for it speaks of every path. A path in a directory that does not
  exist cannot be written: \<^verbatim>\<open>save_system_to_json\<close> raises the \<open>IOError\<close> of its
  \<^verbatim>\<open>except\<close> clause. A path with a NUL character makes \<^verbatim>\<open>open\<close> raise a \<open>ValueError\<close>
  that is not caught. And the null device takes the text without keeping it: saving
  succeeds, and loading from the same path fails with a \<open>JSONDecodeError\<close>.
\<close>

theorem json_round_trip_counterexample:
  "ordinary_fields (ThermodynamicSystem (PFloat (Fin 151 (- 1))) (PFloat (Fin (- 10) 0)) (PFloat (Fin 0 0)))
   \<and> save_system_to_json missing_dir_fs
        (PSystem (ThermodynamicSystem (PFloat (Fin 151 (- 1))) (PFloat (Fin (- 10) 0)) (PFloat (Fin 0 0))))
        (PStr ''missing_dir/system.json'')
       = Inl (OSError (''Failed to save system to missing_dir/system.json: [Errno 2] No such file or directory: 'missing_dir/system.json'' @ sq))
   \<and> save_system_to_json empty_fs
        (PSystem (ThermodynamicSystem (PFloat (Fin 151 (- 1))) (PFloat (Fin (- 10) 0)) (PFloat (Fin 0 0))))
        (PStr nul_path)
       = Inl (ValueError ''embedded null byte'')
   \<and> write_fault null_device_fs ''/dev/null'' = None
   \<and> read_fault null_device_fs ''/dev/null'' = None
   \<and> save_system_to_json null_device_fs
        (PSystem (ThermodynamicSystem (PFloat (Fin 151 (- 1))) (PFloat (Fin (- 10) 0)) (PFloat (Fin 0 0))))
        (PStr ''/dev/null'')
       = Inr null_device_fs
   \<and> load_system_from_json null_device_fs (PStr ''/dev/null'')
       = Inl (JSONDecodeError ''Invalid JSON format in /dev/null: Expecting value'' [] 0)"
  by (simp add: ordinary_fields_def save_system_to_json_def nul_path_def has_nul_def
        empty_fs_def null_device_fs_def missing_dir_fs_def json_dump_def to_dict_def
        and_then_def load_str open_read_def json_load_def)

text \<open>A field holding NaN is why C2 speaks of numbers: such an entity does not even equal
  itself.\<close>

lemma nan_field_breaks_equality:
  "\<not> system_eq (ThermodynamicSystem (PFloat NaN) q w) (PSystem (ThermodynamicSystem (PFloat NaN) q w))"
  by simp

end
